theory Spec2Isabelle
  imports Complex_Main "HOL-Library.Sublist"
begin

section \<open>Role-based permissions (backend/auth.py)\<close>

text \<open>
  \<^verbatim>\<open>UserRole\<close> is a \<^verbatim>\<open>str\<close> enumeration, so a role is its string value and the dictionary
  \<^verbatim>\<open>ROLE_PERMISSIONS\<close> is keyed by these strings. The dictionary is a module-level object
  whose values are Python lists, that is, mutable objects that a caller of
  \<^verbatim>\<open>ROLE_PERMISSIONS.get\<close> receives by reference. The table is therefore a piece of state:
  a map from the role to the current contents of its list.
\<close>

type_synonym permission_table = "string \<rightharpoonup> string list"

definition ROLE_PERMISSIONS :: permission_table where
  "ROLE_PERMISSIONS = map_of
     [(''admin'',
         [''users:create'', ''users:read'', ''users:update'', ''users:delete'',
          ''products:create'', ''products:read'', ''products:update'', ''products:delete'',
          ''quotes:create'', ''quotes:read'', ''quotes:update'', ''quotes:delete'',
          ''analytics:read'', ''system:admin'']),
      (''manager'',
         [''users:read'', ''users:update'',
          ''products:read'', ''products:update'',
          ''quotes:create'', ''quotes:read'', ''quotes:update'',
          ''analytics:read'']),
      (''sales_rep'',
         [''products:read'',
          ''quotes:create'', ''quotes:read'', ''quotes:update'',
          ''customers:read'']),
      (''customer'',
         [''products:read'',
          ''quotes:create'', ''quotes:read'']),
      (''company_admin'',
         [''products:read'',
          ''quotes:create'', ''quotes:read'', ''quotes:update'',
          ''company:manage''])]"

text \<open>
  The object that \<^verbatim>\<open>ROLE_PERMISSIONS.get(role, [])\<close> returns: the very list stored in the
  table under the role, or the fresh empty list of the default argument.
\<close>

datatype list_ref = TableEntry string | FreshList "string list"

definition get_user_permissions :: "permission_table \<Rightarrow> string \<Rightarrow> list_ref" where
  "get_user_permissions tbl r =
     (case tbl r of Some ps \<Rightarrow> TableEntry r | None \<Rightarrow> FreshList [])"

definition deref :: "permission_table \<Rightarrow> list_ref \<Rightarrow> string list" where
  "deref tbl ref = (case ref of TableEntry r \<Rightarrow> (case tbl r of Some ps \<Rightarrow> ps | None \<Rightarrow> [])
                              | FreshList ps \<Rightarrow> ps)"

text \<open>\<^verbatim>\<open>list.extend\<close>: appends in place to the object the reference denotes.\<close>

definition list_extend :: "permission_table \<Rightarrow> list_ref \<Rightarrow> string list \<Rightarrow> permission_table \<times> list_ref" where
  "list_extend tbl ref xs =
     (case ref of
        TableEntry r \<Rightarrow> (tbl(r \<mapsto> deref tbl ref @ xs), ref)
      | FreshList ps \<Rightarrow> (tbl, FreshList (ps @ xs)))"

text \<open>The permissions a role has, read as a value: what a caller sees in the returned list.\<close>

definition permissions_of_role :: "permission_table \<Rightarrow> string \<Rightarrow> string list" where
  "permissions_of_role tbl r = deref tbl (get_user_permissions tbl r)"

text \<open>The table of section 4.1 of the specification, written out as sets.\<close>

definition spec_permissionsFor :: "string \<Rightarrow> string set" where
  "spec_permissionsFor r =
     (if r = ''admin'' then
        {''users:create'', ''users:read'', ''users:update'', ''users:delete'',
         ''products:create'', ''products:read'', ''products:update'', ''products:delete'',
         ''quotes:create'', ''quotes:read'', ''quotes:update'', ''quotes:delete'',
         ''analytics:read'', ''system:admin''}
      else if r = ''manager'' then
        {''users:read'', ''users:update'', ''products:read'', ''products:update'',
         ''quotes:create'', ''quotes:read'', ''quotes:update'', ''analytics:read''}
      else if r = ''sales_rep'' then
        {''products:read'', ''quotes:create'', ''quotes:read'', ''quotes:update'',
         ''customers:read''}
      else if r = ''customer'' then
        {''products:read'', ''quotes:create'', ''quotes:read''}
      else if r = ''company_admin'' then
        {''products:read'', ''quotes:create'', ''quotes:read'', ''quotes:update'',
         ''company:manage''}
      else {})"

section \<open>Errors and identities\<close>

text \<open>
  A request ends in one of three ways besides a normal return: the handler raises
  \<^verbatim>\<open>HTTPException(status_code, detail)\<close>; the framework rejects the request because the
  body violates the field constraints of its pydantic model; or some other Python exception
  escapes (\<^verbatim>\<open>InvalidId\<close> from \<^verbatim>\<open>ObjectId(...)\<close>, \<^verbatim>\<open>TypeError\<close>, a failure of the storage
  driver), named here by its class.
\<close>

datatype error = HTTPException nat string | RequestValidationError | PyException string

text \<open>\<^verbatim>\<open>models.auth.User\<close>, the fields the quote routes and the permission check read.\<close>

record user =
  user_id :: string
  role :: string
  company_id :: "string option"
  permissions :: "string list"

text \<open>
  The inner \<^verbatim>\<open>permission_checker\<close> of \<^verbatim>\<open>require_permissions\<close>. The list it extends with the
  user's custom permissions is the object \<^verbatim>\<open>get_user_permissions\<close> returned, so the new
  table is part of the result. \<^verbatim>\<open>effective_permissions\<close> is the first two lines of it.
\<close>

definition effective_permissions :: "permission_table \<Rightarrow> user \<Rightarrow> permission_table \<times> string list" where
  "effective_permissions tbl current_user =
     (case list_extend tbl (get_user_permissions tbl (role current_user)) (permissions current_user) of
        (tbl', user_permissions) \<Rightarrow> (tbl', deref tbl' user_permissions))"

definition permission_checker ::
  "string list \<Rightarrow> permission_table \<Rightarrow> user \<Rightarrow> permission_table \<times> (error + user)" where
  "permission_checker required_permissions tbl current_user =
     (case effective_permissions tbl current_user of
        (tbl', user_permissions) \<Rightarrow>
          (tbl',
           case find (\<lambda>permission. permission \<notin> set user_permissions) required_permissions of
             Some permission \<Rightarrow>
               Inl (HTTPException 403 (''Insufficient permissions. Required: '' @ permission))
           | None \<Rightarrow> Inr current_user))"

text \<open>
  \<^verbatim>\<open>require_role\<close>. The routes pass the roles as plain strings, and the message of the 403
  reads \<^verbatim>\<open>role.value\<close> of each of them, which a \<^verbatim>\<open>str\<close> does not have: for a user outside the
  required roles the checker ends in \<^verbatim>\<open>AttributeError\<close> before the \<^verbatim>\<open>HTTPException\<close> is built.
\<close>

definition require_role :: "string list \<Rightarrow> user \<Rightarrow> error + user" where
  "require_role required_roles current_user =
     (if role current_user \<notin> set required_roles then Inl (PyException ''AttributeError'')
      else Inr current_user)"

section \<open>Quote documents and the store (routes/quotes.py)\<close>

text \<open>
  Amounts are Python floats, that is, IEEE doubles: a finite rational, an infinity or
  not-a-number. The two zeros of the doubles are one value here: the comparisons and
  truth tests of the code do not tell them apart, and its operations only in the sign of
  a zero result. Comparisons and truth values of doubles are exact and are defined here.
  The arithmetic operations round and overflow; they enter every function that computes
  as a parameter, the record \<open>arith\<close>, of which nothing is assumed, so that what is proved
  holds for every arithmetic, that of the doubles included. Timestamps are seconds.
\<close>

datatype double = Finite rat | PosInf | NegInf | NaN

text \<open>
  \<^verbatim>\<open>a + b\<close>, \<^verbatim>\<open>a - b\<close>, \<^verbatim>\<open>a * b\<close> and \<^verbatim>\<open>a / b\<close> on floats (the source divides only by 100), and
  \<^verbatim>\<open>a * n\<close> of a float and an \<^verbatim>\<open>int\<close>, which raises \<^verbatim>\<open>OverflowError\<close> when the \<^verbatim>\<open>int\<close> is too large
  to convert.
\<close>

record arith =
  fadd :: "double \<Rightarrow> double \<Rightarrow> double"
  fsub :: "double \<Rightarrow> double \<Rightarrow> double"
  fmul :: "double \<Rightarrow> double \<Rightarrow> double"
  fdiv :: "double \<Rightarrow> double \<Rightarrow> double"
  times_int :: "double \<Rightarrow> int \<Rightarrow> error + double"

text \<open>\<^verbatim>\<open>x > 0\<close>, \<^verbatim>\<open>x >= 0\<close>, \<^verbatim>\<open>not x\<close> and \<^verbatim>\<open>max(0, x)\<close>, which keeps \<^verbatim>\<open>0\<close> unless \<^verbatim>\<open>x > 0\<close>.\<close>

definition dgt0 :: "double \<Rightarrow> bool" where
  "dgt0 x = (case x of Finite r \<Rightarrow> 0 < r | PosInf \<Rightarrow> True | NegInf \<Rightarrow> False | NaN \<Rightarrow> False)"

definition dge0 :: "double \<Rightarrow> bool" where
  "dge0 x = (case x of Finite r \<Rightarrow> 0 \<le> r | PosInf \<Rightarrow> True | NegInf \<Rightarrow> False | NaN \<Rightarrow> False)"

definition falsy :: "double \<Rightarrow> bool" where
  "falsy x = (x = Finite 0)"

definition max0 :: "double \<Rightarrow> double" where
  "max0 x = (if dgt0 x then x else Finite 0)"

text \<open>
  The arithmetic of the doubles on the amounts of the examples. In doubles \<^verbatim>\<open>10 / 100\<close> is
  \<open>3602879701896397 / 2 ^ 55\<close>, and \<^verbatim>\<open>1000 * (10 / 100)\<close> and \<^verbatim>\<open>900 * (10 / 100)\<close> round to
  \<^verbatim>\<open>100.0\<close> and \<^verbatim>\<open>90.0\<close>. Every other operation of the examples is on whole numbers below
  \<open>2 ^ 53\<close> with such a result, or is \<^verbatim>\<open>200 / 100\<close>, and is exact in doubles; \<open>exactly\<close> computes
  it. Only the examples use \<open>example_arith\<close>.
\<close>

definition tenth :: rat where
  "tenth = 3602879701896397 / 36028797018963968"

definition exactly :: "(rat \<Rightarrow> rat \<Rightarrow> rat) \<Rightarrow> double \<Rightarrow> double \<Rightarrow> double" where
  "exactly f a b = (case (a, b) of (Finite x, Finite y) \<Rightarrow> Finite (f x y) | _ \<Rightarrow> NaN)"

definition example_arith :: arith where
  "example_arith =
     \<lparr>fadd = exactly (+),
      fsub = exactly (-),
      fmul = (\<lambda>a b. if a = Finite 1000 \<and> b = Finite tenth then Finite 100
                    else if a = Finite 900 \<and> b = Finite tenth then Finite 90
                    else exactly (*) a b),
      fdiv = (\<lambda>a b. if a = Finite 10 \<and> b = Finite 100 then Finite tenth
                    else exactly (/) a b),
      times_int = (\<lambda>a n. Inr (exactly (*) a (Finite (of_int n))))\<rparr>"

record QuoteItemRequest =
  product_id :: string
  product_name :: string
  quantity :: int
  unit_price :: "double option"
  item_notes :: "string option"

text \<open>
  An element of \<^verbatim>\<open>quote["items"]\<close>: the \<^verbatim>\<open>dict()\<close> of a \<^verbatim>\<open>QuoteItemRequest\<close>, to which a
  discount adds the keys \<^verbatim>\<open>original_price\<close> and \<^verbatim>\<open>discount_applied\<close>.
\<close>

record item_doc = QuoteItemRequest +
  original_price :: "double option"
  discount_applied :: "double option"

record CustomerInfo =
  customer_name :: string
  customer_company :: "string option"
  customer_email :: string
  customer_phone :: "string option"
  customer_address :: "string option"

text \<open>
  A document of \<^verbatim>\<open>db.quotes\<close> with the keys \<^verbatim>\<open>create_quote\<close> writes, which every stored
  quote has, and the two keys a discount adds to the quote; \<^verbatim>\<open>created_by\<close> is the stored
  ObjectId as the string the handlers compare.
\<close>

record quote =
  customer_info :: CustomerInfo
  items :: "item_doc list"
  status :: string
  total_estimate :: "double option"
  quote_notes :: "string option"
  admin_notes :: "string option"
  created_by :: string
  created_at :: int
  updated_at :: int
  expires_at :: int
  requested_delivery_date :: "int option"
  quote_discount_applied :: "double option"
  discount_reason :: "string option"

text \<open>
  The values a history entry carries: a status, nothing, or one of the formatted strings of
  the discount entry, kept as the data they are formatted from.
\<close>

datatype history_value =
    NoValue
  | Text string
  | TotalText "double option"
  | TotalDiscountText "double option" double
  | DiscountNote string double

record history_entry =
  history_quote_id :: string
  history_action :: string
  field_changed :: string
  old_value :: history_value
  new_value :: history_value
  changed_by :: string
  timestamp :: int
  history_notes :: history_value

text \<open>
  Documents of \<^verbatim>\<open>db.companies\<close> and \<^verbatim>\<open>db.users\<close> are untyped dictionaries; a key may be
  missing, which \<^verbatim>\<open>.get\<close> turns into its default.
\<close>

record company_doc =
  quote_sharing_enabled :: "bool option"

record user_doc =
  user_company_id :: "string option"

text \<open>
  The store: the four collections keyed by ObjectId, the notification tasks added to
  \<^verbatim>\<open>background_tasks\<close> in the order they are added (the quote id and the new status at
  that moment; the tasks run after the response and what they do is not modelled), and the
  failures of the storage collaborator: the quote ids on which a write to \<^verbatim>\<open>db.quotes\<close>
  raises, and whether an insert into \<^verbatim>\<open>db.quote_history\<close> raises. Reads do not fail
  except on an id that is not an ObjectId.
\<close>

record db =
  quotes :: "string \<rightharpoonup> quote"
  quote_history :: "history_entry list"
  companies :: "string \<rightharpoonup> company_doc"
  users :: "string \<rightharpoonup> user_doc"
  background_tasks :: "(string \<times> string) list"
  write_raises :: "string set"
  history_raises :: bool

text \<open>
  \<^verbatim>\<open>bson.ObjectId(s)\<close> for a string: 24 hexadecimal digits, or \<^verbatim>\<open>InvalidId\<close>. The collections
  are keyed by the string itself: an id is taken in the lower-case form in which bson
  prints it (for a string with upper-case digits bson builds the ObjectId of the
  lower-case string).
\<close>

definition is_hex :: "char \<Rightarrow> bool" where
  "is_hex c = (c \<in> set ''0123456789abcdefABCDEF'')"

definition ObjectId :: "string \<Rightarrow> error + string" where
  "ObjectId s = (if length s = 24 \<and> list_all is_hex s then Inr s else Inl (PyException ''InvalidId''))"

text \<open>\<^verbatim>\<open>collection.find_one({"_id": ObjectId(s)})\<close>: the document, \<^verbatim>\<open>None\<close>, or the exception.\<close>

definition find_one :: "(string \<rightharpoonup> 'a) \<Rightarrow> string \<Rightarrow> error + 'a option" where
  "find_one coll s = (case ObjectId s of Inl e \<Rightarrow> Inl e | Inr oid \<Rightarrow> Inr (coll oid))"

text \<open>\<^verbatim>\<open>get_quote_by_id\<close> logs an exception of the lookup and returns \<^verbatim>\<open>None\<close>.\<close>

definition get_quote_by_id :: "string \<Rightarrow> db \<Rightarrow> quote option" where
  "get_quote_by_id quote_id d =
     (case find_one (quotes d) quote_id of Inl e \<Rightarrow> None | Inr found \<Rightarrow> found)"

subsection \<open>Access to a quote\<close>

text \<open>
  The body of the \<^verbatim>\<open>try\<close> block of \<^verbatim>\<open>can_access_quote\<close>; an exception inside it is logged and
  the function falls through to \<^verbatim>\<open>return False\<close>.
\<close>

definition company_quote_access :: "quote \<Rightarrow> string \<Rightarrow> db \<Rightarrow> error + bool" where
  "company_quote_access q cid d =
     (case find_one (companies d) cid of
        Inl e \<Rightarrow> Inl e
      | Inr None \<Rightarrow> Inr False
      | Inr (Some company) \<Rightarrow>
          if (case quote_sharing_enabled company of None \<Rightarrow> True | Some b \<Rightarrow> b) then
            (case find_one (users d) (created_by q) of
               Inl e \<Rightarrow> Inl e
             | Inr None \<Rightarrow> Inr False
             | Inr (Some quote_creator) \<Rightarrow> Inr (user_company_id quote_creator = Some cid))
          else Inr False)"

text \<open>
  What a caller passes as \<^verbatim>\<open>db\<close>: nothing (the default \<^verbatim>\<open>None\<close>); the \<^verbatim>\<open>AsyncIOMotorDatabase\<close>
  that \<^verbatim>\<open>get_database\<close> returns, which is what every route of the repository passes; or
  some other object with the same collections and an ordinary truth value, such as a test
  double. A Motor database does not implement truth value testing: \<^verbatim>\<open>bool(db)\<close> raises
  \<^verbatim>\<open>NotImplementedError\<close> (the health check of \<^verbatim>\<open>server.py\<close> compares with \<^verbatim>\<open>None\<close> instead).
\<close>

datatype db_handle = NoDatabase | MotorDatabase db | TruthyStore db

definition bool_of_db :: "db_handle \<Rightarrow> error + bool" where
  "bool_of_db h =
     (case h of
        NoDatabase \<Rightarrow> Inr False
      | MotorDatabase d \<Rightarrow> Inl (PyException ''NotImplementedError'')
      | TruthyStore d \<Rightarrow> Inr True)"

definition store_of :: "db_handle \<Rightarrow> db option" where
  "store_of h = (case h of NoDatabase \<Rightarrow> None | MotorDatabase d \<Rightarrow> Some d | TruthyStore d \<Rightarrow> Some d)"

text \<open>
  \<^verbatim>\<open>can_access_quote\<close>. The test \<^verbatim>\<open>user.company_id and db\<close> stands before the \<^verbatim>\<open>try\<close>: a missing or
  empty \<^verbatim>\<open>company_id\<close> is falsy and ends the test, otherwise the truth value of \<^verbatim>\<open>db\<close> is
  taken and an exception of it leaves the function.
\<close>

definition can_access_quote :: "quote \<Rightarrow> user \<Rightarrow> db_handle \<Rightarrow> error + bool" where
  "can_access_quote q u h =
     (if role u \<in> set [''admin'', ''manager''] then Inr True
      else if created_by q = user_id u then Inr True
      else (case company_id u of
              None \<Rightarrow> Inr False
            | Some cid \<Rightarrow>
                if cid = [] then Inr False
                else (case bool_of_db h of
                        Inl e \<Rightarrow> Inl e
                      | Inr False \<Rightarrow> Inr False
                      | Inr True \<Rightarrow>
                          (case store_of h of
                             None \<Rightarrow> Inr False
                           | Some d \<Rightarrow>
                               (case company_quote_access q cid d of
                                  Inl e \<Rightarrow> Inr False
                                | Inr b \<Rightarrow> Inr b)))))"

text \<open>
  The contract of section 4.2 in the specification's words. A lookup that fails, by an
  exception or because nothing is stored under the id, is "not found". The rule is read
  with the value a company document without the key \<^verbatim>\<open>quote_sharing_enabled\<close> is taken to
  have; as the specification words it ("if \<^verbatim>\<open>quote_sharing_enabled\<close> is true") that value is
  \<^verbatim>\<open>False\<close>.
\<close>

definition lookup :: "(string \<rightharpoonup> 'a) \<Rightarrow> string \<Rightarrow> 'a option" where
  "lookup coll s = (case find_one coll s of Inl e \<Rightarrow> None | Inr found \<Rightarrow> found)"

definition canAccessQuote_rule :: "bool \<Rightarrow> quote \<Rightarrow> user \<Rightarrow> db \<Rightarrow> bool" where
  "canAccessQuote_rule missing_default q u d =
     (if role u = ''admin'' \<or> role u = ''manager'' then True
      else if created_by q = user_id u then True
      else (case company_id u of
              None \<Rightarrow> False
            | Some cid \<Rightarrow>
                (case lookup (companies d) cid of
                   None \<Rightarrow> False
                 | Some company \<Rightarrow>
                     (case quote_sharing_enabled company of
                        None \<Rightarrow> missing_default | Some b \<Rightarrow> b) \<and>
                     (case lookup (users d) (created_by q) of
                        None \<Rightarrow> False
                      | Some quote_creator \<Rightarrow> user_company_id quote_creator = Some cid))))"

definition spec_canAccessQuote :: "quote \<Rightarrow> user \<Rightarrow> db \<Rightarrow> bool" where
  "spec_canAccessQuote = canAccessQuote_rule False"

subsection \<open>Request models and their field constraints\<close>

text \<open>
  The framework validates a request body against its pydantic model before the handler
  runs; a body that violates a constraint never reaches the handler.
\<close>

definition opt_max_length :: "nat \<Rightarrow> string option \<Rightarrow> bool" where
  "opt_max_length n s = (case s of None \<Rightarrow> True | Some x \<Rightarrow> length x \<le> n)"

definition valid_QuoteItemRequest :: "QuoteItemRequest \<Rightarrow> bool" where
  "valid_QuoteItemRequest r =
     (1 \<le> length (product_name r) \<and> length (product_name r) \<le> 200
      \<and> 0 < quantity r
      \<and> (case unit_price r of None \<Rightarrow> True | Some p \<Rightarrow> dge0 p)
      \<and> opt_max_length 500 (item_notes r))"

definition valid_CustomerInfo :: "CustomerInfo \<Rightarrow> bool" where
  "valid_CustomerInfo c =
     (1 \<le> length (customer_name c) \<and> length (customer_name c) \<le> 100
      \<and> opt_max_length 100 (customer_company c)
      \<and> 5 \<le> length (customer_email c) \<and> length (customer_email c) \<le> 100
      \<and> opt_max_length 20 (customer_phone c)
      \<and> opt_max_length 500 (customer_address c))"

text \<open>\<^verbatim>\<open>item.dict()\<close> and \<^verbatim>\<open>QuoteItemRequest(**item)\<close>; the latter ignores the extra keys.\<close>

definition item_dict :: "QuoteItemRequest \<Rightarrow> item_doc" where
  "item_dict r =
     \<lparr>product_id = product_id r, product_name = product_name r, quantity = quantity r,
      unit_price = unit_price r, item_notes = item_notes r,
      original_price = None, discount_applied = None\<rparr>"

definition QuoteItemRequest_of :: "item_doc \<Rightarrow> QuoteItemRequest" where
  "QuoteItemRequest_of i =
     \<lparr>product_id = product_id i, product_name = product_name i, quantity = quantity i,
      unit_price = unit_price i, item_notes = item_notes i\<rparr>"

definition parse_items :: "item_doc list \<Rightarrow> error + QuoteItemRequest list" where
  "parse_items docs =
     (if list_all (\<lambda>i. valid_QuoteItemRequest (QuoteItemRequest_of i)) docs
      then Inr (map QuoteItemRequest_of docs)
      else Inl (PyException ''ValidationError''))"

record QuoteRequest =
  req_customer_info :: CustomerInfo
  req_items :: "QuoteItemRequest list"
  req_notes :: "string option"
  req_requested_delivery_date :: "int option"

definition valid_QuoteRequest :: "QuoteRequest \<Rightarrow> bool" where
  "valid_QuoteRequest r =
     (valid_CustomerInfo (req_customer_info r)
      \<and> 1 \<le> length (req_items r) \<and> list_all valid_QuoteItemRequest (req_items r)
      \<and> opt_max_length 1000 (req_notes r))"

record QuoteUpdate =
  upd_customer_info :: "CustomerInfo option"
  upd_items :: "QuoteItemRequest list option"
  upd_status :: "string option"
  upd_notes :: "string option"
  upd_admin_notes :: "string option"
  upd_total_estimate :: "double option"

definition valid_QuoteUpdate :: "QuoteUpdate \<Rightarrow> bool" where
  "valid_QuoteUpdate r =
     ((case upd_customer_info r of None \<Rightarrow> True | Some c \<Rightarrow> valid_CustomerInfo c)
      \<and> (case upd_items r of None \<Rightarrow> True | Some its \<Rightarrow> list_all valid_QuoteItemRequest its)
      \<and> (case upd_status r of None \<Rightarrow> True
          | Some st \<Rightarrow> st \<in> set [''draft'', ''pending'', ''approved'', ''rejected'', ''expired''])
      \<and> opt_max_length 1000 (upd_notes r)
      \<and> opt_max_length 1000 (upd_admin_notes r)
      \<and> (case upd_total_estimate r of None \<Rightarrow> True | Some t \<Rightarrow> dge0 t))"

record StatusChangeRequest =
  new_status :: string
  status_admin_notes :: "string option"
  notify_customer :: bool

definition valid_StatusChangeRequest :: "StatusChangeRequest \<Rightarrow> bool" where
  "valid_StatusChangeRequest r =
     (new_status r \<in> set [''draft'', ''pending'', ''sent'', ''approved'', ''rejected'', ''expired'']
      \<and> opt_max_length 500 (status_admin_notes r))"

record BulkDiscountRequest =
  discount_type :: string
  discount_value :: double
  apply_to_items :: "string list option"
  reason :: "string option"

definition valid_BulkDiscountRequest :: "BulkDiscountRequest \<Rightarrow> bool" where
  "valid_BulkDiscountRequest r =
     (discount_type r \<in> set [''percentage'', ''fixed_amount'']
      \<and> dgt0 (discount_value r)
      \<and> opt_max_length 200 (reason r))"

record BulkQuoteAction =
  quote_ids :: "string list"
  action :: string
  bulk_notes :: "string option"
  notify_customers :: bool

definition valid_BulkQuoteAction :: "BulkQuoteAction \<Rightarrow> bool" where
  "valid_BulkQuoteAction r =
     (1 \<le> length (quote_ids r) \<and> length (quote_ids r) \<le> 50
      \<and> action r \<in> set [''approve'', ''reject'', ''archive'', ''delete'']
      \<and> opt_max_length 500 (bulk_notes r))"

subsection \<open>Storage operations\<close>

text \<open>
  Writes to \<^verbatim>\<open>db.quotes\<close> with the filter \<^verbatim>\<open>{"_id": ObjectId(quote_id)}\<close>. A write raises on
  an invalid id and where the storage collaborator fails; \<^verbatim>\<open>insert_one\<close> also raises on an
  id that is already stored.
\<close>

definition quotes_insert_one :: "string \<Rightarrow> quote \<Rightarrow> db \<Rightarrow> error + db" where
  "quotes_insert_one oid doc d =
     (if oid \<in> write_raises d then Inl (PyException ''PyMongoError'')
      else if quotes d oid \<noteq> None then Inl (PyException ''DuplicateKeyError'')
      else Inr (d\<lparr>quotes := (quotes d)(oid \<mapsto> doc)\<rparr>))"

definition quotes_update_one :: "string \<Rightarrow> (quote \<Rightarrow> quote) \<Rightarrow> db \<Rightarrow> error + db" where
  "quotes_update_one quote_id set_fields d =
     (case ObjectId quote_id of
        Inl e \<Rightarrow> Inl e
      | Inr oid \<Rightarrow>
          if oid \<in> write_raises d then Inl (PyException ''PyMongoError'')
          else (case quotes d oid of
                  None \<Rightarrow> Inr d
                | Some q \<Rightarrow> Inr (d\<lparr>quotes := (quotes d)(oid \<mapsto> set_fields q)\<rparr>)))"

text \<open>\<^verbatim>\<open>delete_one\<close> returns the store and \<^verbatim>\<open>deleted_count\<close>.\<close>

definition quotes_delete_one :: "string \<Rightarrow> db \<Rightarrow> error + nat \<times> db" where
  "quotes_delete_one quote_id d =
     (case ObjectId quote_id of
        Inl e \<Rightarrow> Inl e
      | Inr oid \<Rightarrow>
          if oid \<in> write_raises d then Inl (PyException ''PyMongoError'')
          else (case quotes d oid of
                  None \<Rightarrow> Inr (0, d)
                | Some q \<Rightarrow> Inr (1, d\<lparr>quotes := (quotes d)(oid := None)\<rparr>)))"

text \<open>
  \<^verbatim>\<open>db.quote_history.insert_one\<close> inside its own \<^verbatim>\<open>try\<close>: a failure is logged (or passed
  over) and the entry is lost.
\<close>

definition record_history :: "history_entry \<Rightarrow> db \<Rightarrow> db" where
  "record_history entry d =
     (if history_raises d then d else d\<lparr>quote_history := quote_history d @ [entry]\<rparr>)"

text \<open>
  The handlers end in \<^verbatim>\<open>except HTTPException: raise\<close> and
  \<^verbatim>\<open>except Exception: raise HTTPException(500, detail)\<close>.
\<close>

definition reraise :: "string \<Rightarrow> (error + 'a) \<times> db \<Rightarrow> (error + 'a) \<times> db" where
  "reraise detail res =
     (case res of
        (Inl (HTTPException code msg), d) \<Rightarrow> (Inl (HTTPException code msg), d)
      | (Inl e, d) \<Rightarrow> (Inl (HTTPException 500 detail), d)
      | (Inr r, d) \<Rightarrow> (Inr r, d))"

subsection \<open>Totals\<close>

text \<open>
  The loop of \<^verbatim>\<open>calculate_quote_total\<close> over \<^verbatim>\<open>total\<close> (here \<open>running\<close>) and \<^verbatim>\<open>has_pricing\<close>;
  \<^verbatim>\<open>total\<close> starts at \<^verbatim>\<open>0.0\<close>.
\<close>

fun calculate_loop ::
  "arith \<Rightarrow> QuoteItemRequest list \<Rightarrow> double \<times> bool \<Rightarrow> error + double \<times> bool" where
  "calculate_loop fp [] (running, has_pricing) = Inr (running, has_pricing)"
| "calculate_loop fp (item # rest) (running, has_pricing) =
     (case unit_price item of
        None \<Rightarrow> calculate_loop fp rest (running, has_pricing)
      | Some p \<Rightarrow>
          (case times_int fp p (quantity item) of
             Inl e \<Rightarrow> Inl e
           | Inr line \<Rightarrow> calculate_loop fp rest (fadd fp running line, True)))"

definition calculate_quote_total :: "arith \<Rightarrow> QuoteItemRequest list \<Rightarrow> error + double option" where
  "calculate_quote_total fp its =
     (case calculate_loop fp its (Finite 0, False) of
        Inl e \<Rightarrow> Inl e
      | Inr (running, has_pricing) \<Rightarrow> Inr (if has_pricing then Some running else None))"

text \<open>
  The invariant of section 3 in the specification's words, in the arithmetic of the code:
  the products \<^verbatim>\<open>unit_price * quantity\<close> of the items that have a price, in the order of the
  items, summed from \<^verbatim>\<open>0.0\<close>; and null exactly when no item has a price.
\<close>

definition priced :: "'a QuoteItemRequest_scheme \<Rightarrow> bool" where
  "priced i = (unit_price i \<noteq> None)"

fun line_totals :: "arith \<Rightarrow> 'a QuoteItemRequest_scheme list \<Rightarrow> error + double list" where
  "line_totals fp [] = Inr []"
| "line_totals fp (i # rest) =
     (case unit_price i of
        None \<Rightarrow> line_totals fp rest
      | Some p \<Rightarrow>
          (case times_int fp p (quantity i) of
             Inl e \<Rightarrow> Inl e
           | Inr line \<Rightarrow>
               (case line_totals fp rest of Inl e \<Rightarrow> Inl e | Inr lines \<Rightarrow> Inr (line # lines))))"

definition spec_total_estimate ::
  "arith \<Rightarrow> 'a QuoteItemRequest_scheme list \<Rightarrow> error + double option" where
  "spec_total_estimate fp its =
     (case line_totals fp its of
        Inl e \<Rightarrow> Inl e
      | Inr lines \<Rightarrow> Inr (if lines = [] then None else Some (foldl (fadd fp) (Finite 0) lines)))"

definition total_invariant :: "arith \<Rightarrow> quote \<Rightarrow> bool" where
  "total_invariant fp q = (spec_total_estimate fp (items q) = Inr (total_estimate q))"

text \<open>
  The store holds integers of at most eight bytes: encoding a document with a larger
  \<^verbatim>\<open>int\<close> raises \<^verbatim>\<open>OverflowError\<close> at the write.
\<close>

definition bson_int64 :: "int \<Rightarrow> bool" where
  "bson_int64 n = (- (2 ^ 63) \<le> n \<and> n < 2 ^ 63)"

definition encodable :: "QuoteItemRequest list \<Rightarrow> bool" where
  "encodable its = list_all (\<lambda>i. bson_int64 (quantity i)) its"

subsection \<open>Creating, updating and deleting a quote\<close>

text \<open>
  \<^verbatim>\<open>create_quote\<close>; \<open>now\<close> is \<^verbatim>\<open>datetime.utcnow()\<close> and \<open>inserted_id\<close> the id the store assigns.
  Each handler returns its result together with the store as it leaves it.
\<close>

definition create_quote ::
  "arith \<Rightarrow> QuoteRequest \<Rightarrow> user \<Rightarrow> db \<Rightarrow> int \<Rightarrow> string
     \<Rightarrow> (error + string \<times> quote) \<times> db" where
  "create_quote fp quote_request current_user d now inserted_id =
     (if \<not> valid_QuoteRequest quote_request then (Inl RequestValidationError, d)
      else reraise ''Failed to create quote''
        (case calculate_quote_total fp (req_items quote_request) of
           Inl e \<Rightarrow> (Inl e, d)
         | Inr total_est \<Rightarrow>
         case ObjectId (user_id current_user) of
           Inl e \<Rightarrow> (Inl e, d)
         | Inr uid \<Rightarrow>
             (let quote_doc =
                \<lparr>customer_info = req_customer_info quote_request,
                 items = map item_dict (req_items quote_request),
                 status = ''draft'',
                 total_estimate = total_est,
                 quote_notes = req_notes quote_request,
                 admin_notes = None,
                 created_by = uid,
                 created_at = now,
                 updated_at = now,
                 expires_at = now + 30 * 86400,
                 requested_delivery_date = req_requested_delivery_date quote_request,
                 quote_discount_applied = None,
                 discount_reason = None\<rparr>
              in if \<not> encodable (req_items quote_request)
                 then (Inl (PyException ''OverflowError''), d)
                 else (case quotes_insert_one inserted_id quote_doc d of
                         Inl e \<Rightarrow> (Inl e, d)
                       | Inr d' \<Rightarrow> (Inr (inserted_id, quote_doc), d')))))"

text \<open>
  The \<^verbatim>\<open>update_doc\<close> that \<^verbatim>\<open>update_quote\<close> builds, as the change \<^verbatim>\<open>$set\<close> makes to the stored
  document. An empty \<^verbatim>\<open>items\<close> list is falsy and changes nothing. The total of new items is
  computed while the document is built, before the write; \<open>recalculated\<close> is that total, or
  \<^verbatim>\<open>None\<close> when the items do not change.
\<close>

definition recalculated_total :: "arith \<Rightarrow> QuoteUpdate \<Rightarrow> error + double option option" where
  "recalculated_total fp quote_update =
     (case upd_items quote_update of
        Some (i # rest) \<Rightarrow>
          (case calculate_quote_total fp (i # rest) of Inl e \<Rightarrow> Inl e | Inr t \<Rightarrow> Inr (Some t))
      | _ \<Rightarrow> Inr None)"

definition update_doc ::
  "QuoteUpdate \<Rightarrow> user \<Rightarrow> int \<Rightarrow> double option option \<Rightarrow> quote \<Rightarrow> quote" where
  "update_doc quote_update current_user now recalculated q =
     (let q1 = q\<lparr>updated_at := now\<rparr>;
          q2 = (case upd_customer_info quote_update of
                  Some c \<Rightarrow> q1\<lparr>customer_info := c\<rparr> | None \<Rightarrow> q1);
          q3 = (case (upd_items quote_update, recalculated) of
                  (Some (i # rest), Some t) \<Rightarrow>
                    q2\<lparr>items := map item_dict (i # rest), total_estimate := t\<rparr>
                | _ \<Rightarrow> q2);
          q4 = (case upd_status quote_update of Some st \<Rightarrow> q3\<lparr>status := st\<rparr> | None \<Rightarrow> q3);
          q5 = (case upd_notes quote_update of
                  Some n \<Rightarrow> q4\<lparr>quote_notes := Some n\<rparr> | None \<Rightarrow> q4)
      in if role current_user \<in> set [''admin'', ''manager''] then
           (let q6 = (case upd_admin_notes quote_update of
                        Some n \<Rightarrow> q5\<lparr>admin_notes := Some n\<rparr> | None \<Rightarrow> q5)
            in case upd_total_estimate quote_update of
                 Some t \<Rightarrow> q6\<lparr>total_estimate := Some t\<rparr> | None \<Rightarrow> q6)
         else q5)"

definition update_quote ::
  "arith \<Rightarrow> string \<Rightarrow> QuoteUpdate \<Rightarrow> user \<Rightarrow> db \<Rightarrow> int \<Rightarrow> (error + quote) \<times> db" where
  "update_quote fp quote_id quote_update current_user d now =
     (if \<not> valid_QuoteUpdate quote_update then (Inl RequestValidationError, d)
      else reraise ''Failed to update quote''
        (case get_quote_by_id quote_id d of
           None \<Rightarrow> (Inl (HTTPException 404 ''Quote not found''), d)
         | Some q \<Rightarrow>
             if created_by q \<noteq> user_id current_user
                \<and> role current_user \<notin> set [''admin'', ''manager'']
             then (Inl (HTTPException 403 ''Access denied''), d)
             else
               (case recalculated_total fp quote_update of
                  Inl e \<Rightarrow> (Inl e, d)
                | Inr recalculated \<Rightarrow>
                    if \<not> (case upd_items quote_update of None \<Rightarrow> True | Some its \<Rightarrow> encodable its)
                    then (Inl (PyException ''OverflowError''), d)
                    else
                      (case quotes_update_one quote_id
                              (update_doc quote_update current_user now recalculated) d of
                         Inl e \<Rightarrow> (Inl e, d)
                       | Inr d' \<Rightarrow>
                           (case get_quote_by_id quote_id d' of
                              None \<Rightarrow> (Inl (PyException ''TypeError''), d')
                            | Some updated_quote \<Rightarrow> (Inr updated_quote, d'))))))"

text \<open>\<^verbatim>\<open>delete_quote\<close>: the role dependency, then the deletion, whatever the status.\<close>

definition delete_quote :: "string \<Rightarrow> user \<Rightarrow> db \<Rightarrow> (error + unit) \<times> db" where
  "delete_quote quote_id current_user d =
     (case require_role [''admin'', ''manager''] current_user of
        Inl e \<Rightarrow> (Inl e, d)
      | Inr u \<Rightarrow>
          reraise ''Failed to delete quote''
            (case quotes_delete_one quote_id d of
               Inl e \<Rightarrow> (Inl e, d)
             | Inr (deleted_count, d') \<Rightarrow>
                 if deleted_count = 0 then (Inl (HTTPException 404 ''Quote not found''), d')
                 else (Inr (), d')))"

subsection \<open>Status changes\<close>

record status_change_response =
  response_old_status :: string
  response_new_status :: string
  notification_sent :: bool

text \<open>Python's \<^verbatim>\<open>x or default\<close> on an optional string: \<^verbatim>\<open>None\<close> and the empty string are falsy.\<close>

definition or_else :: "string option \<Rightarrow> string \<Rightarrow> string" where
  "or_else x dflt = (case x of None \<Rightarrow> dflt | Some s \<Rightarrow> if s = [] then dflt else s)"

definition truthy :: "string option \<Rightarrow> bool" where
  "truthy x = (case x of None \<Rightarrow> False | Some s \<Rightarrow> s \<noteq> [])"

definition change_quote_status ::
  "string \<Rightarrow> StatusChangeRequest \<Rightarrow> user \<Rightarrow> db \<Rightarrow> int
     \<Rightarrow> (error + status_change_response) \<times> db" where
  "change_quote_status quote_id status_request current_user d now =
     (if \<not> valid_StatusChangeRequest status_request then (Inl RequestValidationError, d)
      else reraise ''Failed to change quote status''
        (case get_quote_by_id quote_id d of
           None \<Rightarrow> (Inl (HTTPException 404 ''Quote not found''), d)
         | Some q \<Rightarrow>
             (let can_change_status =
                    (role current_user \<in> set [''admin'', ''manager'']
                     \<or> created_by q = user_id current_user);
                  old_status = status q;
                  new_st = new_status status_request
              in if \<not> can_change_status then
                   (Inl (HTTPException 403 ''Insufficient permissions to change quote status''), d)
                 else if old_status = new_st then
                   (Inl (HTTPException 400 ''Quote is already in the specified status''), d)
                 else
                   (case quotes_update_one quote_id
                           (\<lambda>stored.
                              (if truthy (status_admin_notes status_request)
                                  \<and> role current_user \<in> set [''admin'', ''manager'']
                               then stored\<lparr>admin_notes := status_admin_notes status_request\<rparr>
                               else stored)
                              \<lparr>status := new_st, updated_at := now\<rparr>) d of
                      Inl e \<Rightarrow> (Inl e, d)
                    | Inr d1 \<Rightarrow>
                        (case ObjectId (user_id current_user) of
                           Inl e \<Rightarrow> (Inl e, d1)
                         | Inr uid \<Rightarrow>
                             (let history_entry =
                                    \<lparr>history_quote_id = quote_id,
                                     history_action = ''status_changed'',
                                     field_changed = ''status'',
                                     old_value = Text old_status,
                                     new_value = Text new_st,
                                     changed_by = uid,
                                     timestamp = now,
                                     history_notes =
                                       Text (or_else (status_admin_notes status_request)
                                         (''Status changed from '' @ old_status @ '' to '' @ new_st))\<rparr>;
                                  d2 = record_history history_entry d1;
                                  notify = (notify_customer status_request
                                            \<and> customer_email (customer_info q) \<noteq> []);
                                  d3 = (if notify
                                        then d2\<lparr>background_tasks :=
                                                 background_tasks d2 @ [(quote_id, new_st)]\<rparr>
                                        else d2)
                              in (Inr \<lparr>response_old_status = old_status,
                                       response_new_status = new_st,
                                       notification_sent = notify\<rparr>, d3)))))))"

text \<open>
  The transition contract of section 4.3 in the specification's words, as the kind of
  outcome: \<^verbatim>\<open>Forbidden\<close> unless the requestor is staff or the creator, \<^verbatim>\<open>NoOpTransition\<close> if
  the new status is the current one, success for any other pair among the seven states.
\<close>

definition quote_states :: "string list" where
  "quote_states = [''draft'', ''pending'', ''sent'', ''approved'', ''rejected'', ''expired'', ''archived'']"

datatype transition_outcome = Forbidden | NoOpTransition | Transitioned | OtherFailure

definition outcome_of :: "(error + status_change_response) \<times> db \<Rightarrow> transition_outcome" where
  "outcome_of res =
     (case fst res of
        Inr r \<Rightarrow> Transitioned
      | Inl (HTTPException code msg) \<Rightarrow>
          if code = 403 then Forbidden else if code = 400 then NoOpTransition else OtherFailure
      | Inl e \<Rightarrow> OtherFailure)"

definition authorized :: "quote \<Rightarrow> user \<Rightarrow> bool" where
  "authorized q u = (role u = ''admin'' \<or> role u = ''manager'' \<or> created_by q = user_id u)"

subsection \<open>Discounts\<close>

text \<open>
  One pass of the loop body of \<^verbatim>\<open>apply_bulk_discount\<close> on an item: \<^verbatim>\<open>None\<close> when the item is
  skipped (no price, or a price of zero, which is falsy), otherwise the item as rewritten
  and its \<^verbatim>\<open>discount_amount\<close>.
\<close>

definition discount_item ::
  "arith \<Rightarrow> string \<Rightarrow> double \<Rightarrow> item_doc \<Rightarrow> (item_doc \<times> double) option" where
  "discount_item fp dtype v item =
     (case unit_price item of
        None \<Rightarrow> None
      | Some price \<Rightarrow>
          if falsy price then None
          else (let (discount_amount, new_price) =
                      (if dtype = ''percentage''
                       then (fmul fp price (fdiv fp v (Finite 100)),
                             max0 (fsub fp price (fmul fp price (fdiv fp v (Finite 100)))))
                       else (fsub fp price (max0 (fsub fp price v)), max0 (fsub fp price v)))
                in Some (item\<lparr>unit_price := Some new_price,
                               original_price := Some price,
                               discount_applied := Some discount_amount\<rparr>,
                         discount_amount)))"

text \<open>
  The loop over \<^verbatim>\<open>item_indices\<close>, on \<^verbatim>\<open>modified_items\<close> and \<^verbatim>\<open>total_discount\<close>; \<open>n\<close> is
  \<^verbatim>\<open>len(items)\<close>. An exception of \<^verbatim>\<open>discount_amount * quantity\<close> leaves the loop.
\<close>

fun discount_loop ::
  "arith \<Rightarrow> string \<Rightarrow> double \<Rightarrow> nat \<Rightarrow> nat list \<Rightarrow> item_doc list \<times> double
     \<Rightarrow> error + item_doc list \<times> double" where
  "discount_loop fp dtype v n [] acc = Inr acc"
| "discount_loop fp dtype v n (i # rest) (modified_items, total_discount) =
     (if i \<ge> n then discount_loop fp dtype v n rest (modified_items, total_discount)
      else (case discount_item fp dtype v (modified_items ! i) of
              None \<Rightarrow> discount_loop fp dtype v n rest (modified_items, total_discount)
            | Some (item', discount_amount) \<Rightarrow>
                (case times_int fp discount_amount (quantity (modified_items ! i)) of
                   Inl e \<Rightarrow> Inl e
                 | Inr line \<Rightarrow>
                     discount_loop fp dtype v n rest
                       (modified_items[i := item'], fadd fp total_discount line))))"

text \<open>
  \<^verbatim>\<open>item_indices = apply_to_items or list(range(len(items)))\<close>. The request model types
  \<^verbatim>\<open>apply_to_items\<close> as a list of strings, and the loop compares each index with
  \<^verbatim>\<open>len(items)\<close>: on a non-empty list the first comparison of a \<^verbatim>\<open>str\<close> with an \<^verbatim>\<open>int\<close> raises
  \<^verbatim>\<open>TypeError\<close>. The result is \<^verbatim>\<open>modified_items\<close>, \<^verbatim>\<open>total_discount\<close> and \<^verbatim>\<open>len(item_indices)\<close>.
\<close>

definition discount_items ::
  "arith \<Rightarrow> BulkDiscountRequest \<Rightarrow> item_doc list \<Rightarrow> error + item_doc list \<times> double \<times> nat" where
  "discount_items fp discount_request its =
     (case apply_to_items discount_request of
        Some (i # rest) \<Rightarrow> Inl (PyException ''TypeError'')
      | _ \<Rightarrow>
          (case discount_loop fp (discount_type discount_request)
                  (discount_value discount_request) (length its)
                  [0..<length its] (its, Finite 0) of
             Inl e \<Rightarrow> Inl e
           | Inr (modified_items, total_discount) \<Rightarrow>
               Inr (modified_items, total_discount, length its)))"

record discount_response =
  response_total_discount :: double
  response_new_total :: "double option"
  items_affected :: nat

definition apply_bulk_discount ::
  "arith \<Rightarrow> string \<Rightarrow> BulkDiscountRequest \<Rightarrow> user \<Rightarrow> db \<Rightarrow> int
     \<Rightarrow> (error + discount_response) \<times> db" where
  "apply_bulk_discount fp quote_id discount_request current_user d now =
     (case require_role [''admin'', ''manager''] current_user of
        Inl e \<Rightarrow> (Inl e, d)
      | Inr u \<Rightarrow>
          if \<not> valid_BulkDiscountRequest discount_request then (Inl RequestValidationError, d)
          else reraise ''Failed to apply bulk discount''
            (case get_quote_by_id quote_id d of
               None \<Rightarrow> (Inl (HTTPException 404 ''Quote not found''), d)
             | Some q \<Rightarrow>
                 if items q = [] then (Inl (HTTPException 400 ''Quote has no items to discount''), d)
                 else
                   (case discount_items fp discount_request (items q) of
                      Inl e \<Rightarrow> (Inl e, d)
                    | Inr (modified_items, total_discount, n_indices) \<Rightarrow>
                        (case parse_items modified_items of
                           Inl e \<Rightarrow> (Inl e, d)
                         | Inr parsed \<Rightarrow>
                             (case calculate_quote_total fp parsed of
                                Inl e \<Rightarrow> (Inl e, d)
                              | Inr new_total \<Rightarrow>
                              case quotes_update_one quote_id
                                     (\<lambda>stored. stored\<lparr>items := modified_items,
                                                       total_estimate := new_total,
                                                       quote_discount_applied := Some total_discount,
                                                       discount_reason := reason discount_request,
                                                       updated_at := now\<rparr>) d of
                                Inl e \<Rightarrow> (Inl e, d)
                              | Inr d1 \<Rightarrow>
                                  (case ObjectId (user_id current_user) of
                                     Inl e \<Rightarrow> (Inl e, d1)
                                   | Inr uid \<Rightarrow>
                                       (let history_entry =
                                              \<lparr>history_quote_id = quote_id,
                                               history_action = ''discount_applied'',
                                               field_changed = ''items'',
                                               old_value = TotalText (total_estimate q),
                                               new_value = TotalDiscountText new_total total_discount,
                                               changed_by = uid,
                                               timestamp = now,
                                               history_notes =
                                                 DiscountNote (discount_type discount_request)
                                                   (discount_value discount_request)\<rparr>
                                        in (Inr \<lparr>response_total_discount = total_discount,
                                                 response_new_total = new_total,
                                                 items_affected = n_indices\<rparr>,
                                            record_history history_entry d1))))))))"

text \<open>
  What the discount of section 4.4 does to one item, and the products
  \<^verbatim>\<open>discount_amount * quantity\<close> of the items it affects, in the order of the items, for the
  comparison with the loop.
\<close>

definition discounted :: "arith \<Rightarrow> string \<Rightarrow> double \<Rightarrow> item_doc \<Rightarrow> item_doc" where
  "discounted fp dtype v item =
     (case discount_item fp dtype v item of None \<Rightarrow> item | Some (item', a) \<Rightarrow> item')"

fun discount_totals ::
  "arith \<Rightarrow> string \<Rightarrow> double \<Rightarrow> item_doc list \<Rightarrow> error + double list" where
  "discount_totals fp dtype v [] = Inr []"
| "discount_totals fp dtype v (item # rest) =
     (case discount_item fp dtype v item of
        None \<Rightarrow> discount_totals fp dtype v rest
      | Some (item', a) \<Rightarrow>
          (case times_int fp a (quantity item) of
             Inl e \<Rightarrow> Inl e
           | Inr line \<Rightarrow>
               (case discount_totals fp dtype v rest of
                  Inl e \<Rightarrow> Inl e
                | Inr lines \<Rightarrow> Inr (line # lines))))"

text \<open>The items the loop does not skip: those with a price that is not falsy.\<close>

definition affected :: "item_doc \<Rightarrow> bool" where
  "affected item = (case unit_price item of None \<Rightarrow> False | Some price \<Rightarrow> \<not> falsy price)"

subsection \<open>Bulk actions\<close>

record processed_quote =
  processed_quote_id :: string
  processed_action :: string
  processed_old_status :: string
  processed_new_status :: string

record failed_quote =
  failed_quote_id :: string
  failed_reason :: string

datatype bulk_outcome = Processed processed_quote | Failure failed_quote | NoEntry

text \<open>
  The body of the inner \<^verbatim>\<open>try\<close> of \<^verbatim>\<open>bulk_quote_action\<close> for one quote id: the entry it
  appends, or the exception that leaves it, and the store at that point.
\<close>

definition bulk_process_quote ::
  "BulkQuoteAction \<Rightarrow> user \<Rightarrow> int \<Rightarrow> string \<Rightarrow> db \<Rightarrow> (error + bulk_outcome) \<times> db" where
  "bulk_process_quote bulk_request current_user now quote_id d =
     (case get_quote_by_id quote_id d of
        None \<Rightarrow> (Inr (Failure \<lparr>failed_quote_id = quote_id, failed_reason = ''Quote not found''\<rparr>), d)
      | Some q \<Rightarrow>
          (let old_status = status q in
           if action bulk_request \<in> set [''approve'', ''reject''] then
             (let new_st = (if action bulk_request = ''approve'' then ''approved'' else ''rejected'') in
              case quotes_update_one quote_id
                     (\<lambda>stored. stored\<lparr>status := new_st,
                                       admin_notes := bulk_notes bulk_request,
                                       updated_at := now\<rparr>) d of
                Inl e \<Rightarrow> (Inl e, d)
              | Inr d1 \<Rightarrow>
                  (case ObjectId (user_id current_user) of
                     Inl e \<Rightarrow> (Inl e, d1)
                   | Inr uid \<Rightarrow>
                       (let history_entry =
                              \<lparr>history_quote_id = quote_id,
                               history_action = ''bulk_'' @ action bulk_request,
                               field_changed = ''status'',
                               old_value = Text old_status,
                               new_value = Text new_st,
                               changed_by = uid,
                               timestamp = now,
                               history_notes =
                                 Text (or_else (bulk_notes bulk_request)
                                   (''Bulk '' @ action bulk_request @ '' action''))\<rparr>;
                            d2 = record_history history_entry d1;
                            d3 = (if notify_customers bulk_request
                                     \<and> customer_email (customer_info q) \<noteq> []
                                  then d2\<lparr>background_tasks :=
                                           background_tasks d2 @ [(quote_id, new_st)]\<rparr>
                                  else d2)
                        in (Inr (Processed \<lparr>processed_quote_id = quote_id,
                                            processed_action = action bulk_request,
                                            processed_old_status = old_status,
                                            processed_new_status = new_st\<rparr>), d3))))
           else if action bulk_request = ''delete'' then
             (if status q \<noteq> ''draft'' then
                (Inr (Failure \<lparr>failed_quote_id = quote_id,
                               failed_reason = ''Can only delete draft quotes''\<rparr>), d)
              else
                (case quotes_delete_one quote_id d of
                   Inl e \<Rightarrow> (Inl e, d)
                 | Inr (deleted_count, d1) \<Rightarrow>
                     (Inr (Processed \<lparr>processed_quote_id = quote_id,
                                      processed_action = ''deleted'',
                                      processed_old_status = old_status,
                                      processed_new_status = ''deleted''\<rparr>), d1)))
           else if action bulk_request = ''archive'' then
             (case quotes_update_one quote_id
                     (\<lambda>stored. stored\<lparr>status := ''archived'',
                                       admin_notes := bulk_notes bulk_request,
                                       updated_at := now\<rparr>) d of
                Inl e \<Rightarrow> (Inl e, d)
              | Inr d1 \<Rightarrow>
                  (Inr (Processed \<lparr>processed_quote_id = quote_id,
                                   processed_action = ''archived'',
                                   processed_old_status = old_status,
                                   processed_new_status = ''archived''\<rparr>), d1))
           else (Inr NoEntry, d)))"

text \<open>
  One iteration of the loop over \<^verbatim>\<open>quote_ids\<close>, with the \<^verbatim>\<open>except\<close> clause that turns an
  exception into a "Processing error" entry; then the loop.
\<close>

definition bulk_step ::
  "BulkQuoteAction \<Rightarrow> user \<Rightarrow> int \<Rightarrow> string
     \<Rightarrow> processed_quote list \<times> failed_quote list \<times> db
     \<Rightarrow> processed_quote list \<times> failed_quote list \<times> db" where
  "bulk_step bulk_request current_user now quote_id acc =
     (case acc of (processed_quotes, failed_quotes, d) \<Rightarrow>
        (case bulk_process_quote bulk_request current_user now quote_id d of
           (Inr (Processed p), d') \<Rightarrow> (processed_quotes @ [p], failed_quotes, d')
         | (Inr (Failure f), d') \<Rightarrow> (processed_quotes, failed_quotes @ [f], d')
         | (Inr NoEntry, d') \<Rightarrow> (processed_quotes, failed_quotes, d')
         | (Inl e, d') \<Rightarrow>
             (processed_quotes,
              failed_quotes @ [\<lparr>failed_quote_id = quote_id, failed_reason = ''Processing error''\<rparr>],
              d')))"

fun bulk_loop ::
  "BulkQuoteAction \<Rightarrow> user \<Rightarrow> int \<Rightarrow> string list
     \<Rightarrow> processed_quote list \<times> failed_quote list \<times> db
     \<Rightarrow> processed_quote list \<times> failed_quote list \<times> db" where
  "bulk_loop bulk_request current_user now [] acc = acc"
| "bulk_loop bulk_request current_user now (quote_id # rest) acc =
     bulk_loop bulk_request current_user now rest
       (bulk_step bulk_request current_user now quote_id acc)"

record bulk_response =
  processed_count :: nat
  failed_count :: nat
  processed_quotes :: "processed_quote list"
  failed_quotes :: "failed_quote list"

definition bulk_quote_action ::
  "BulkQuoteAction \<Rightarrow> user \<Rightarrow> db \<Rightarrow> int \<Rightarrow> (error + bulk_response) \<times> db" where
  "bulk_quote_action bulk_request current_user d now =
     (case require_role [''admin'', ''manager''] current_user of
        Inl e \<Rightarrow> (Inl e, d)
      | Inr u \<Rightarrow>
          if \<not> valid_BulkQuoteAction bulk_request then (Inl RequestValidationError, d)
          else (case bulk_loop bulk_request current_user now (quote_ids bulk_request) ([], [], d) of
                  (processed, failed, d') \<Rightarrow>
                    (Inr \<lparr>processed_count = length processed,
                          failed_count = length failed,
                          processed_quotes = processed,
                          failed_quotes = failed\<rparr>, d')))"

subsection \<open>Example data\<close>

definition empty_db :: db where
  "empty_db = \<lparr>quotes = Map.empty, quote_history = [], companies = Map.empty, users = Map.empty,
               background_tasks = [], write_raises = {}, history_raises = False\<rparr>"

definition acme_id :: string where "acme_id = ''aaaaaaaaaaaaaaaaaaaaaaaa''"
definition alice_id :: string where "alice_id = ''000000000000000000000001''"
definition bob_id :: string where "bob_id = ''000000000000000000000002''"
definition root_id :: string where "root_id = ''000000000000000000000009''"
definition quote1_id :: string where "quote1_id = ''111111111111111111111111''"
definition quote2_id :: string where "quote2_id = ''222222222222222222222222''"
definition quote3_id :: string where "quote3_id = ''333333333333333333333333''"

definition alice :: user where
  "alice = \<lparr>user_id = alice_id, role = ''customer'', company_id = Some acme_id, permissions = []\<rparr>"

definition bob :: user where
  "bob = \<lparr>user_id = bob_id, role = ''customer'', company_id = Some acme_id,
           permissions = [''quotes:update'']\<rparr>"

definition root :: user where
  "root = \<lparr>user_id = root_id, role = ''admin'', company_id = None, permissions = []\<rparr>"

definition widget :: item_doc where
  "widget = \<lparr>product_id = ''prod-1'', product_name = ''Widget'', quantity = 2,
              unit_price = Some (Finite 1000), item_notes = None,
              original_price = None, discount_applied = None\<rparr>"

definition gasket :: item_doc where
  "gasket = \<lparr>product_id = ''prod-2'', product_name = ''Gasket'', quantity = 5,
              unit_price = None, item_notes = None,
              original_price = None, discount_applied = None\<rparr>"

definition alice_quote :: "string \<Rightarrow> quote" where
  "alice_quote st =
     \<lparr>customer_info = \<lparr>customer_name = ''Alice'', customer_company = None,
                        customer_email = ''alice@acme.example'', customer_phone = None,
                        customer_address = None\<rparr>,
      items = [widget, gasket], status = st, total_estimate = Some (Finite 2000),
      quote_notes = None, admin_notes = None, created_by = alice_id,
      created_at = 0, updated_at = 0, expires_at = 2592000,
      requested_delivery_date = None, quote_discount_applied = None, discount_reason = None\<rparr>"

text \<open>A company document stored without the key \<^verbatim>\<open>quote_sharing_enabled\<close>.\<close>

definition legacy_db :: db where
  "legacy_db = empty_db
     \<lparr>quotes := [quote1_id \<mapsto> alice_quote ''sent''],
      companies := [acme_id \<mapsto> \<lparr>quote_sharing_enabled = None\<rparr>],
      users := [alice_id \<mapsto> \<lparr>user_company_id = Some acme_id\<rparr>,
                bob_id \<mapsto> \<lparr>user_company_id = Some acme_id\<rparr>]\<rparr>"

text \<open>The same store with the sharing setting of the company present and true.\<close>

definition sharing_db :: db where
  "sharing_db = legacy_db\<lparr>companies := [acme_id \<mapsto> \<lparr>quote_sharing_enabled = Some True\<rparr>]\<rparr>"

definition alice_request :: QuoteRequest where
  "alice_request =
     \<lparr>req_customer_info = customer_info (alice_quote ''draft''),
      req_items = [QuoteItemRequest_of widget, QuoteItemRequest_of gasket],
      req_notes = None, req_requested_delivery_date = None\<rparr>"

text \<open>An update of the items that also overrides the total, as staff may.\<close>

definition override_update :: QuoteUpdate where
  "override_update =
     \<lparr>upd_customer_info = None, upd_items = Some [QuoteItemRequest_of widget],
      upd_status = None, upd_notes = None, upd_admin_notes = None,
      upd_total_estimate = Some (Finite 5)\<rparr>"

definition replace_items :: QuoteUpdate where
  "replace_items = override_update\<lparr>upd_total_estimate := None\<rparr>"

definition percent :: "double \<Rightarrow> BulkDiscountRequest" where
  "percent v = \<lparr>discount_type = ''percentage'', discount_value = v,
                apply_to_items = None, reason = None\<rparr>"

definition status_request :: "string \<Rightarrow> StatusChangeRequest" where
  "status_request st = \<lparr>new_status = st, status_admin_notes = None, notify_customer = False\<rparr>"

definition bulk :: "string \<Rightarrow> string list \<Rightarrow> BulkQuoteAction" where
  "bulk a ids = \<lparr>quote_ids = ids, action = a, bulk_notes = None, notify_customers = False\<rparr>"

text \<open>The store after one and after two discounts of 10 percent on the quote of Alice.\<close>

definition once_discounted :: db where
  "once_discounted = snd (apply_bulk_discount example_arith quote1_id (percent (Finite 10)) root legacy_db 10)"

definition twice_discounted :: db where
  "twice_discounted =
     snd (apply_bulk_discount example_arith quote1_id (percent (Finite 10)) root once_discounted 20)"

text \<open>A store with a sent quote, a draft quote, and nothing under the second id.\<close>

definition shop_db :: db where
  "shop_db = legacy_db\<lparr>quotes := [quote1_id \<mapsto> alice_quote ''sent'',
                                    quote3_id \<mapsto> alice_quote ''draft'']\<rparr>"

section \<open>Permission table: theorems\<close>

text \<open>
  C7. For each of the five roles \<^verbatim>\<open>get_user_permissions\<close> returns exactly the permissions of
  the table of section 4.1 (for \<^verbatim>\<open>customer\<close> exactly products:read, quotes:create and
  quotes:read, so without quotes:update), and for every other role it returns the empty
  list; it never fails.
\<close>

theorem get_user_permissions_table:
  "set (permissions_of_role ROLE_PERMISSIONS r) = spec_permissionsFor r
   \<and> set (permissions_of_role ROLE_PERMISSIONS ''customer'')
       = {''products:read'', ''quotes:create'', ''quotes:read''}
   \<and> ''quotes:update'' \<notin> set (permissions_of_role ROLE_PERMISSIONS ''customer'')
   \<and> (r \<notin> set [''admin'', ''manager'', ''sales_rep'', ''customer'', ''company_admin'']
        \<longrightarrow> permissions_of_role ROLE_PERMISSIONS r = [])"
  by (simp add: permissions_of_role_def get_user_permissions_def deref_def
        ROLE_PERMISSIONS_def spec_permissionsFor_def)

theorem get_user_permissions_table_witness:
  "''guest'' \<notin> set [''admin'', ''manager'', ''sales_rep'', ''customer'', ''company_admin'']
   \<and> permissions_of_role ROLE_PERMISSIONS ''guest'' = []
   \<and> set (permissions_of_role ROLE_PERMISSIONS ''sales_rep'') = spec_permissionsFor ''sales_rep''"
  using get_user_permissions_table [of "''guest''"] get_user_permissions_table [of "''sales_rep''"]
  by simp

section \<open>Access to a quote: theorems\<close>

lemma ObjectId_cases: "ObjectId s = Inr s \<or> ObjectId s = Inl (PyException ''InvalidId'')"
  by (simp add: ObjectId_def)

lemma ObjectId_empty: "ObjectId [] = Inl (PyException ''InvalidId'')"
  by (simp add: ObjectId_def)

lemma ObjectId_examples:
  "ObjectId acme_id = Inr acme_id" "ObjectId alice_id = Inr alice_id"
  "ObjectId bob_id = Inr bob_id" "ObjectId root_id = Inr root_id"
  "ObjectId quote1_id = Inr quote1_id" "ObjectId quote2_id = Inr quote2_id"
  "ObjectId quote3_id = Inr quote3_id"
  by (simp_all add: ObjectId_def is_hex_def acme_id_def alice_id_def bob_id_def root_id_def
        quote1_id_def quote2_id_def quote3_id_def)

lemma example_ids_distinct:
  "alice_id \<noteq> bob_id" "bob_id \<noteq> alice_id" "alice_id \<noteq> root_id" "root_id \<noteq> alice_id"
  "quote1_id \<noteq> quote2_id" "quote2_id \<noteq> quote1_id" "quote1_id \<noteq> quote3_id"
  "quote3_id \<noteq> quote1_id" "quote2_id \<noteq> quote3_id" "quote3_id \<noteq> quote2_id"
  "acme_id \<noteq> []"
  by (simp_all add: acme_id_def alice_id_def bob_id_def root_id_def
        quote1_id_def quote2_id_def quote3_id_def)

lemma can_access_quote_truthy_store:
  "can_access_quote q u (TruthyStore d) = Inr (canAccessQuote_rule True q u d)"
  using ObjectId_cases [of "created_by q"]
  by (auto simp: can_access_quote_def canAccessQuote_rule_def company_quote_access_def
      bool_of_db_def store_of_def find_one_def lookup_def ObjectId_empty
      split: option.splits sum.splits)

lemma can_access_quote_motor_database:
  "can_access_quote q u (MotorDatabase d)
     = (if role u = ''admin'' \<or> role u = ''manager'' \<or> created_by q = user_id u then Inr True
        else if company_id u = None \<or> company_id u = Some [] then Inr False
        else Inl (PyException ''NotImplementedError''))"
  by (auto simp: can_access_quote_def bool_of_db_def split: option.splits)

lemma can_access_quote_no_database:
  "can_access_quote q u NoDatabase
     = Inr (role u = ''admin'' \<or> role u = ''manager'' \<or> created_by q = user_id u)"
  by (auto simp: can_access_quote_def bool_of_db_def split: option.splits)

text \<open>
  C1 fails on the code. Bob is a customer of the company of Alice, the company has
  \<^verbatim>\<open>quote_sharing_enabled\<close> true, and the quote is one of Alice: the contract of section 4.2
  gives Bob access. With the database object the routes pass, \<^verbatim>\<open>can_access_quote\<close> leaves by
  the \<^verbatim>\<open>NotImplementedError\<close> of \<^verbatim>\<open>bool(db)\<close> before any lookup (the handlers answer 500);
  only on a store with an ordinary truth value does it return true. Staff and the creator
  are answered before the test and still get true.
\<close>

theorem can_access_quote_raises_on_motor_database:
  "spec_canAccessQuote (alice_quote ''sent'') bob sharing_db = True
   \<and> can_access_quote (alice_quote ''sent'') bob (MotorDatabase sharing_db)
       = Inl (PyException ''NotImplementedError'')
   \<and> can_access_quote (alice_quote ''sent'') bob (TruthyStore sharing_db) = Inr True
   \<and> can_access_quote (alice_quote ''sent'') root (MotorDatabase sharing_db) = Inr True
   \<and> can_access_quote (alice_quote ''sent'') alice (MotorDatabase sharing_db) = Inr True"
  by (simp add: can_access_quote_def spec_canAccessQuote_def canAccessQuote_rule_def
      company_quote_access_def bool_of_db_def store_of_def find_one_def lookup_def
      ObjectId_examples example_ids_distinct alice_quote_def alice_def bob_def root_def
      sharing_db_def legacy_db_def empty_db_def)

text \<open>
  C10 fails on the code, by the same defect. The company document of the store has no
  \<^verbatim>\<open>quote_sharing_enabled\<close>. On a store with an ordinary truth value the default of
  \<^verbatim>\<open>company.get\<close> makes Bob's access to the quote of Alice true, and an absent company or an
  absent creator makes it false; with the database object the routes pass, the three calls
  leave by the \<^verbatim>\<open>NotImplementedError\<close> of \<^verbatim>\<open>bool(db)\<close> and the default is never read.
\<close>

theorem missing_sharing_field_raises_on_motor_database:
  "map_option quote_sharing_enabled (companies legacy_db acme_id) = Some None
   \<and> can_access_quote (alice_quote ''sent'') bob (TruthyStore legacy_db) = Inr True
   \<and> can_access_quote (alice_quote ''sent'') bob (TruthyStore empty_db) = Inr False
   \<and> can_access_quote (alice_quote ''sent'') bob
         (TruthyStore (legacy_db\<lparr>users := Map.empty\<rparr>)) = Inr False
   \<and> can_access_quote (alice_quote ''sent'') bob (MotorDatabase legacy_db)
       = Inl (PyException ''NotImplementedError'')
   \<and> can_access_quote (alice_quote ''sent'') bob (MotorDatabase empty_db)
       = Inl (PyException ''NotImplementedError'')
   \<and> can_access_quote (alice_quote ''sent'') bob
         (MotorDatabase (legacy_db\<lparr>users := Map.empty\<rparr>))
       = Inl (PyException ''NotImplementedError'')"
  by (simp add: can_access_quote_def company_quote_access_def bool_of_db_def store_of_def
      find_one_def ObjectId_examples example_ids_distinct alice_quote_def bob_def
      legacy_db_def empty_db_def)

section \<open>Effective permissions: theorems\<close>

lemma effective_permissions_value:
  "set (snd (effective_permissions tbl u))
     = set (permissions_of_role tbl (role u)) \<union> set (permissions u)"
  by (auto simp: effective_permissions_def list_extend_def get_user_permissions_def deref_def
      permissions_of_role_def split: option.splits)

lemma effective_permissions_table:
  "fst (effective_permissions tbl u)
     = (case tbl (role u) of None \<Rightarrow> tbl | Some ps \<Rightarrow> tbl(role u \<mapsto> ps @ permissions u))"
  by (auto simp: effective_permissions_def list_extend_def get_user_permissions_def deref_def
      split: option.splits)

text \<open>
  C8 fails on the code. The value \<^verbatim>\<open>permission_checker\<close> computes is the role's entry united
  with the custom permissions, but it computes it by extending the list stored in
  \<^verbatim>\<open>ROLE_PERMISSIONS\<close>: after one check of Bob, a customer with the custom permission
  quotes:update, the entry of \<^verbatim>\<open>customer\<close> holds quotes:update, and Alice, a customer
  without custom permissions who was refused quotes:update before, now passes the check.
\<close>

theorem permission_checker_changes_role_table:
  "permissions_of_role ROLE_PERMISSIONS ''customer''
     = [''products:read'', ''quotes:create'', ''quotes:read'']
   \<and> permissions_of_role (fst (permission_checker [''quotes:read''] ROLE_PERMISSIONS bob)) ''customer''
     = [''products:read'', ''quotes:create'', ''quotes:read'', ''quotes:update'']
   \<and> snd (permission_checker [''quotes:update''] ROLE_PERMISSIONS alice)
     = Inl (HTTPException 403 ''Insufficient permissions. Required: quotes:update'')
   \<and> snd (permission_checker [''quotes:update'']
            (fst (permission_checker [''quotes:read''] ROLE_PERMISSIONS bob)) alice)
     = Inr alice"
  by (simp add: permission_checker_def effective_permissions_def list_extend_def
      get_user_permissions_def deref_def permissions_of_role_def ROLE_PERMISSIONS_def
      bob_def alice_def)

section \<open>Totals: supporting lemmas\<close>

lemma calculate_loop_eq:
  "calculate_loop fp its (t, h)
     = (case line_totals fp its of
          Inl e \<Rightarrow> Inl e
        | Inr lines \<Rightarrow> Inr (foldl (fadd fp) t lines, h \<or> lines \<noteq> []))"
  by (induction its arbitrary: t h) (auto split: option.splits sum.splits)

lemma calculate_quote_total_eq: "calculate_quote_total fp its = spec_total_estimate fp its"
  by (auto simp: calculate_quote_total_def calculate_loop_eq spec_total_estimate_def
      split: sum.splits)

lemma line_totals_item_dict: "line_totals fp (map item_dict rs) = line_totals fp rs"
  by (induction rs) (auto simp: item_dict_def split: option.splits sum.splits)

lemma spec_total_item_dict:
  "spec_total_estimate fp (map item_dict rs) = spec_total_estimate fp rs"
  by (simp add: spec_total_estimate_def line_totals_item_dict)

lemma line_totals_of: "line_totals fp (map QuoteItemRequest_of ds) = line_totals fp ds"
  by (induction ds) (auto simp: QuoteItemRequest_of_def split: option.splits sum.splits)

lemma spec_total_of:
  "spec_total_estimate fp (map QuoteItemRequest_of ds) = spec_total_estimate fp ds"
  by (simp add: spec_total_estimate_def line_totals_of)

lemma line_totals_Nil_iff:
  "line_totals fp its = Inr lines \<Longrightarrow> (lines = []) = (\<forall>i\<in>set its. unit_price i = None)"
  by (induction its arbitrary: lines) (auto split: option.splits sum.splits)

lemma max0_nonnegative: "dge0 (max0 x)"
  by (cases x) (auto simp: max0_def dgt0_def dge0_def)

section \<open>Handlers: what a successful return implies\<close>

lemma reraise_Inr: "reraise detail res = (Inr r, d') \<Longrightarrow> res = (Inr r, d')"
  by (auto simp: reraise_def split: prod.splits sum.splits error.splits)

lemma get_quote_by_id_Some:
  "get_quote_by_id qid d = Some q \<Longrightarrow> ObjectId qid = Inr qid \<and> quotes d qid = Some q"
  using ObjectId_cases [of qid] by (auto simp: get_quote_by_id_def find_one_def)

lemma quotes_update_one_Inr:
  "quotes_update_one qid f d = Inr d' \<Longrightarrow> quotes d qid = Some q
     \<Longrightarrow> d' = d\<lparr>quotes := (quotes d)(qid \<mapsto> f q)\<rparr>"
  using ObjectId_cases [of qid]
  by (auto simp: quotes_update_one_def split: if_splits)

lemma record_history_quotes: "quotes (record_history e d) = quotes d"
  by (simp add: record_history_def)

lemma create_quote_Inr:
  assumes "create_quote fp req u d now nid = (Inr (qid, q), d')"
  shows "quotes d' qid = Some q \<and> total_invariant fp q"
  using assms
  by (auto simp: create_quote_def Let_def quotes_insert_one_def total_invariant_def
      calculate_quote_total_eq spec_total_item_dict
      dest!: reraise_Inr split: if_splits sum.splits)

lemma update_doc_items:
  assumes "upd_items upd = Some (i # rest)"
    and "recalculated_total fp upd = Inr recalculated"
    and "role u \<notin> set [''admin'', ''manager''] \<or> upd_total_estimate upd = None"
  shows "total_invariant fp (update_doc upd u now recalculated q)"
  using assms
  by (auto simp: update_doc_def recalculated_total_def Let_def total_invariant_def
      calculate_quote_total_eq spec_total_item_dict
      simp del: list.map split: option.splits sum.splits)

lemma update_quote_Inr:
  assumes "update_quote fp qid upd u d now = (Inr q', d')"
  shows "\<exists>q recalculated. get_quote_by_id qid d = Some q
           \<and> recalculated_total fp upd = Inr recalculated
           \<and> q' = update_doc upd u now recalculated q
           \<and> quotes d' qid = Some q'"
proof -
  from assms obtain q where q: "get_quote_by_id qid d = Some q"
    by (auto simp: update_quote_def dest!: reraise_Inr split: if_splits option.splits)
  then have qs: "ObjectId qid = Inr qid" "quotes d qid = Some q"
    by (auto dest: get_quote_by_id_Some)
  from assms q obtain rc where rc: "recalculated_total fp upd = Inr rc"
    by (auto simp: update_quote_def dest!: reraise_Inr split: if_splits sum.splits)
  from assms q rc obtain d1 where
    d1: "quotes_update_one qid (update_doc upd u now rc) d = Inr d1"
    and r: "d' = d1" "get_quote_by_id qid d1 = Some q'"
    by (auto simp: update_quote_def dest!: reraise_Inr split: if_splits option.splits sum.splits)
  have "d1 = d\<lparr>quotes := (quotes d)(qid \<mapsto> update_doc upd u now rc q)\<rparr>"
    using quotes_update_one_Inr [OF d1 qs(2)] .
  then have "q' = update_doc upd u now rc q" "quotes d' qid = Some q'"
    using r qs by (auto simp: get_quote_by_id_def find_one_def)
  then show ?thesis
    using q rc by simp
qed

section \<open>Discounts: the loop is a map over the items\<close>

lemma discount_loop_eq:
  "length pre = k \<Longrightarrow>
   discount_loop fp dtype v (k + length post) [k..<k + length post] (pre @ post, t)
     = (case discount_totals fp dtype v post of
          Inl e \<Rightarrow> Inl e
        | Inr lines \<Rightarrow>
            Inr (pre @ map (discounted fp dtype v) post, foldl (fadd fp) t lines))"
proof (induction post arbitrary: pre k t)
  case Nil
  then show ?case by simp
next
  case (Cons x post)
  define n where "n = Suc k + length post"
  define js where "js = [Suc k..<n]"
  have len: "k + length (x # post) = n"
    by (simp add: n_def)
  have upt: "[k..<n] = k # js"
    by (simp add: n_def js_def upt_rec)
  have nth: "(pre @ x # post) ! k = x"
    using Cons.prems by (simp add: nth_append)
  have upd: "(pre @ x # post)[k := y] = pre @ y # post" for y
    using Cons.prems by (simp add: list_update_append)
  have not_ge: "\<not> n \<le> k"
    by (simp add: n_def)
  have IH: "discount_loop fp dtype v n js (pre @ y # post, s)
            = (case discount_totals fp dtype v post of
                 Inl e \<Rightarrow> Inl e
               | Inr lines \<Rightarrow>
                   Inr (pre @ y # map (discounted fp dtype v) post,
                        foldl (fadd fp) s lines))" for y s
    using Cons.IH [of "pre @ [y]" "Suc k" s] Cons.prems
    by (simp add: n_def js_def split: sum.splits)
  show ?case
  proof (cases "discount_item fp dtype v x")
    case None
    have "discount_loop fp dtype v n (k # js) (pre @ x # post, t)
          = discount_loop fp dtype v n js (pre @ x # post, t)"
      using None not_ge nth by simp
    then show ?thesis
      unfolding len upt
      by (simp add: IH None discounted_def split: sum.splits)
  next
    case (Some res)
    obtain x' a where res: "res = (x', a)" by (cases res)
    show ?thesis
    proof (cases "times_int fp a (quantity x)")
      case (Inl e)
      have "discount_loop fp dtype v n (k # js) (pre @ x # post, t) = Inl e"
        using Some res Inl not_ge nth by simp
      then show ?thesis
        unfolding len upt
        by (simp add: Some res Inl)
    next
      case (Inr line)
      have "discount_loop fp dtype v n (k # js) (pre @ x # post, t)
            = discount_loop fp dtype v n js (pre @ x' # post, fadd fp t line)"
        using Some res Inr not_ge nth upd [of x'] by simp
      then show ?thesis
        unfolding len upt
        by (simp add: IH Some res Inr discounted_def split: sum.splits)
    qed
  qed
qed

lemma discount_loop_all:
  "discount_loop fp dtype v (length its) [0..<length its] (its, t)
     = (case discount_totals fp dtype v its of
          Inl e \<Rightarrow> Inl e
        | Inr lines \<Rightarrow> Inr (map (discounted fp dtype v) its, foldl (fadd fp) t lines))"
  using discount_loop_eq [of "[]" 0 fp dtype v its t] by (simp split: sum.splits)

lemma discount_items_Inr:
  assumes "discount_items fp req its = Inr (modified_items, total_discount, n)"
  shows "\<exists>lines. discount_totals fp (discount_type req) (discount_value req) its = Inr lines
           \<and> modified_items = map (discounted fp (discount_type req) (discount_value req)) its
           \<and> total_discount = foldl (fadd fp) (Finite 0) lines
           \<and> n = length its"
  using assms
  by (auto simp: discount_items_def discount_loop_all split: option.splits list.splits sum.splits)

lemma discount_items_all:
  assumes "apply_to_items req = None \<or> apply_to_items req = Some []"
  shows "discount_items fp req its
           = (case discount_totals fp (discount_type req) (discount_value req) its of
                Inl e \<Rightarrow> Inl e
              | Inr lines \<Rightarrow>
                  Inr (map (discounted fp (discount_type req) (discount_value req)) its,
                       foldl (fadd fp) (Finite 0) lines, length its))"
  using assms
  by (auto simp: discount_items_def discount_loop_all split: option.splits list.splits sum.splits)

lemma parse_items_Inr: "parse_items ds = Inr parsed \<Longrightarrow> parsed = map QuoteItemRequest_of ds"
  by (auto simp: parse_items_def split: if_splits)

lemma apply_bulk_discount_Inr:
  assumes "apply_bulk_discount fp qid req u d now = (Inr r, d')"
  shows "\<exists>q modified_items total_discount n new_total.
           get_quote_by_id qid d = Some q \<and> items q \<noteq> []
           \<and> role u \<in> set [''admin'', ''manager''] \<and> valid_BulkDiscountRequest req
           \<and> discount_items fp req (items q) = Inr (modified_items, total_discount, n)
           \<and> list_all (\<lambda>i. valid_QuoteItemRequest (QuoteItemRequest_of i)) modified_items
           \<and> calculate_quote_total fp (map QuoteItemRequest_of modified_items) = Inr new_total
           \<and> quotes d' qid
               = Some (q\<lparr>items := modified_items,
                         total_estimate := new_total,
                         quote_discount_applied := Some total_discount,
                         discount_reason := reason req,
                         updated_at := now\<rparr>)
           \<and> r = \<lparr>response_total_discount = total_discount,
                   response_new_total = new_total,
                   items_affected = n\<rparr>"
proof -
  from assms have staff: "role u \<in> set [''admin'', ''manager'']"
    and v: "valid_BulkDiscountRequest req"
    by (auto simp: apply_bulk_discount_def require_role_def split: if_splits)
  from assms staff v obtain q where q: "get_quote_by_id qid d = Some q" and ne: "items q \<noteq> []"
    by (auto simp: apply_bulk_discount_def require_role_def
        dest!: reraise_Inr split: if_splits option.splits)
  then have qs: "ObjectId qid = Inr qid" "quotes d qid = Some q"
    by (auto dest: get_quote_by_id_Some)
  from assms staff v q ne obtain m t n where
    m: "discount_items fp req (items q) = Inr (m, t, n)"
    by (auto simp: apply_bulk_discount_def require_role_def dest!: reraise_Inr split: sum.splits)
  from assms staff v q ne m have p: "parse_items m = Inr (map QuoteItemRequest_of m)"
    by (auto simp: apply_bulk_discount_def require_role_def
        dest!: reraise_Inr parse_items_Inr split: sum.splits)
  then have pv: "list_all (\<lambda>i. valid_QuoteItemRequest (QuoteItemRequest_of i)) m"
    by (auto simp: parse_items_def split: if_splits)
  from assms staff v q ne m p obtain nt where
    nt: "calculate_quote_total fp (map QuoteItemRequest_of m) = Inr nt"
    by (auto simp: apply_bulk_discount_def require_role_def dest!: reraise_Inr split: sum.splits)
  from assms staff v q ne m p nt qs show ?thesis
    by (auto simp: apply_bulk_discount_def require_role_def Let_def record_history_quotes pv
        dest!: reraise_Inr quotes_update_one_Inr [where q = q] split: sum.splits)
qed

section \<open>The handlers on the example data\<close>

lemmas example_defs = alice_def bob_def root_def widget_def gasket_def alice_quote_def
  legacy_db_def empty_db_def alice_request_def override_update_def replace_items_def
  percent_def status_request_def bulk_def shop_db_def

lemmas model_defs = valid_QuoteItemRequest_def valid_CustomerInfo_def opt_max_length_def
  item_dict_def QuoteItemRequest_of_def parse_items_def valid_QuoteRequest_def
  valid_QuoteUpdate_def valid_StatusChangeRequest_def valid_BulkDiscountRequest_def
  valid_BulkQuoteAction_def quotes_insert_one_def quotes_update_one_def quotes_delete_one_def
  record_history_def reraise_def get_quote_by_id_def find_one_def require_role_def
  encodable_def bson_int64_def recalculated_total_def

lemmas arith_defs = example_arith_def exactly_def tenth_def dge0_def dgt0_def falsy_def max0_def

lemma create_example:
  "create_quote example_arith alice_request alice empty_db 0 quote1_id
     = (Inr (quote1_id, alice_quote ''draft''),
        empty_db\<lparr>quotes := [quote1_id \<mapsto> alice_quote ''draft'']\<rparr>)"
  by (simp add: create_quote_def example_defs model_defs arith_defs ObjectId_examples
      example_ids_distinct calculate_quote_total_def Let_def)

lemma update_example:
  "update_quote example_arith quote1_id replace_items alice legacy_db 10
     = (Inr ((alice_quote ''sent'')\<lparr>updated_at := 10, items := [widget]\<rparr>),
        legacy_db\<lparr>quotes := [quote1_id \<mapsto> (alice_quote ''sent'')\<lparr>updated_at := 10, items := [widget]\<rparr>]\<rparr>)"
  by (simp add: update_quote_def update_doc_def example_defs model_defs arith_defs
      ObjectId_examples example_ids_distinct calculate_quote_total_def Let_def)

lemma override_example:
  "update_quote example_arith quote1_id override_update root legacy_db 10
     = (Inr ((alice_quote ''sent'')
               \<lparr>updated_at := 10, items := [widget], total_estimate := Some (Finite 5)\<rparr>),
        legacy_db\<lparr>quotes := [quote1_id \<mapsto> (alice_quote ''sent'')
               \<lparr>updated_at := 10, items := [widget], total_estimate := Some (Finite 5)\<rparr>]\<rparr>)"
  by (simp add: update_quote_def update_doc_def example_defs model_defs arith_defs
      ObjectId_examples example_ids_distinct calculate_quote_total_def Let_def)

lemma discount_example:
  "apply_bulk_discount example_arith quote1_id (percent (Finite 10)) root legacy_db 10
     = (Inr \<lparr>response_total_discount = Finite 200, response_new_total = Some (Finite 1800),
             items_affected = 2\<rparr>,
        legacy_db\<lparr>quotes := [quote1_id \<mapsto> (alice_quote ''sent'')
             \<lparr>items := [widget\<lparr>unit_price := Some (Finite 900),
                                 original_price := Some (Finite 1000),
                                 discount_applied := Some (Finite 100)\<rparr>, gasket],
              total_estimate := Some (Finite 1800),
              quote_discount_applied := Some (Finite 200),
              discount_reason := None, updated_at := 10\<rparr>],
          quote_history := [\<lparr>history_quote_id = quote1_id, history_action = ''discount_applied'',
             field_changed = ''items'', old_value = TotalText (Some (Finite 2000)),
             new_value = TotalDiscountText (Some (Finite 1800)) (Finite 200),
             changed_by = root_id, timestamp = 10,
             history_notes = DiscountNote ''percentage'' (Finite 10)\<rparr>]\<rparr>)"
  apply (simp add: apply_bulk_discount_def)
  apply (simp add: require_role_def root_def valid_BulkDiscountRequest_def percent_def
      opt_max_length_def dgt0_def)
  apply (simp add: get_quote_by_id_def find_one_def ObjectId_examples legacy_db_def empty_db_def)
  apply (simp add: alice_quote_def discount_items_all discounted_def discount_item_def
      widget_def gasket_def percent_def arith_defs)
  apply (simp add: model_defs calculate_quote_total_def ObjectId_examples Let_def root_def
      legacy_db_def empty_db_def arith_defs)
  apply (simp add: alice_quote_def percent_def)
  done

lemma once_discounted_eq:
  "once_discounted = legacy_db\<lparr>quotes := [quote1_id \<mapsto> (alice_quote ''sent'')
             \<lparr>items := [widget\<lparr>unit_price := Some (Finite 900),
                                 original_price := Some (Finite 1000),
                                 discount_applied := Some (Finite 100)\<rparr>, gasket],
              total_estimate := Some (Finite 1800),
              quote_discount_applied := Some (Finite 200),
              discount_reason := None, updated_at := 10\<rparr>],
          quote_history := [\<lparr>history_quote_id = quote1_id, history_action = ''discount_applied'',
             field_changed = ''items'', old_value = TotalText (Some (Finite 2000)),
             new_value = TotalDiscountText (Some (Finite 1800)) (Finite 200),
             changed_by = root_id, timestamp = 10,
             history_notes = DiscountNote ''percentage'' (Finite 10)\<rparr>]\<rparr>"
  by (simp add: once_discounted_def discount_example)

lemma second_discount_example:
  "fst (apply_bulk_discount example_arith quote1_id (percent (Finite 10)) root once_discounted 20)
     = Inr \<lparr>response_total_discount = Finite 180, response_new_total = Some (Finite 1620),
            items_affected = 2\<rparr>
   \<and> quotes twice_discounted quote1_id = Some ((alice_quote ''sent'')
             \<lparr>items := [widget\<lparr>unit_price := Some (Finite 810),
                                 original_price := Some (Finite 900),
                                 discount_applied := Some (Finite 90)\<rparr>, gasket],
              total_estimate := Some (Finite 1620),
              quote_discount_applied := Some (Finite 180),
              discount_reason := None, updated_at := 20\<rparr>)"
  unfolding twice_discounted_def once_discounted_eq
  apply (simp add: apply_bulk_discount_def)
  apply (simp add: require_role_def root_def valid_BulkDiscountRequest_def percent_def
      opt_max_length_def dgt0_def)
  apply (simp add: get_quote_by_id_def find_one_def ObjectId_examples legacy_db_def empty_db_def)
  apply (simp add: alice_quote_def discount_items_all discounted_def discount_item_def
      widget_def gasket_def percent_def arith_defs)
  apply (simp add: model_defs calculate_quote_total_def ObjectId_examples Let_def root_def
      legacy_db_def empty_db_def arith_defs)
  apply (simp add: alice_quote_def percent_def)
  done

lemma first_discount_example:
  "apply_bulk_discount example_arith quote1_id (percent (Finite 10)) root legacy_db 10
     = (Inr \<lparr>response_total_discount = Finite 200, response_new_total = Some (Finite 1800),
             items_affected = 2\<rparr>,
        once_discounted)"
  by (simp add: discount_example once_discounted_eq)

lemma once_discounted_quote:
  "quotes once_discounted quote1_id = Some ((alice_quote ''sent'')
             \<lparr>items := [widget\<lparr>unit_price := Some (Finite 900),
                                 original_price := Some (Finite 1000),
                                 discount_applied := Some (Finite 100)\<rparr>, gasket],
              total_estimate := Some (Finite 1800),
              quote_discount_applied := Some (Finite 200),
              discount_reason := None, updated_at := 10\<rparr>)"
  by (simp add: once_discounted_eq)

lemma double_discount_example:
  "quotes (snd (apply_bulk_discount example_arith quote1_id (percent (Finite 200)) root legacy_db 10))
       quote1_id
     = Some ((alice_quote ''sent'')
             \<lparr>items := [widget\<lparr>unit_price := Some (Finite 0),
                                 original_price := Some (Finite 1000),
                                 discount_applied := Some (Finite 2000)\<rparr>, gasket],
              total_estimate := Some (Finite 0),
              quote_discount_applied := Some (Finite 4000),
              discount_reason := None, updated_at := 10\<rparr>)"
  apply (simp add: apply_bulk_discount_def)
  apply (simp add: require_role_def root_def valid_BulkDiscountRequest_def percent_def
      opt_max_length_def dgt0_def)
  apply (simp add: get_quote_by_id_def find_one_def ObjectId_examples legacy_db_def empty_db_def)
  apply (simp add: alice_quote_def discount_items_all discounted_def discount_item_def
      widget_def gasket_def percent_def arith_defs)
  apply (simp add: model_defs calculate_quote_total_def ObjectId_examples Let_def root_def
      legacy_db_def empty_db_def arith_defs)
  apply (simp add: alice_quote_def percent_def)
  done

section \<open>The total of a quote: theorems\<close>

lemma line_totals_Inr:
  "line_totals fp its = Inr lines \<Longrightarrow>
   list_all2 (\<lambda>i line. \<exists>p. unit_price i = Some p \<and> times_int fp p (quantity i) = Inr line)
     (filter priced its) lines"
  by (induction its arbitrary: lines) (auto simp: priced_def split: option.splits sum.splits)

text \<open>
  C3 (as amended). A quote that \<^verbatim>\<open>create_quote\<close> stores, a quote after an \<^verbatim>\<open>update_quote\<close> that
  replaces the items and carries no total override by staff, and a quote after
  \<^verbatim>\<open>apply_bulk_discount\<close> have the \<^verbatim>\<open>total_estimate\<close> of the invariant, in the arithmetic of
  the code: the products \<^verbatim>\<open>unit_price * quantity\<close> of the priced items of the stored quote,
  added in the order of the items to a total that starts at \<^verbatim>\<open>0.0\<close>. Such a total is null
  exactly when no item has a price. This holds whatever the float operations return.
\<close>

theorem total_estimate_invariant:
  "(create_quote fp req u1 d1 now1 nid = (Inr (qid1, q1), d1')
      \<longrightarrow> quotes d1' qid1 = Some q1 \<and> total_invariant fp q1)
   \<and> (update_quote fp qid2 upd u2 d2 now2 = (Inr q2, d2') \<and> upd_items upd = Some (i # rest)
        \<and> (role u2 \<notin> set [''admin'', ''manager''] \<or> upd_total_estimate upd = None)
      \<longrightarrow> quotes d2' qid2 = Some q2 \<and> total_invariant fp q2)
   \<and> (apply_bulk_discount fp qid3 dreq u3 d3 now3 = (Inr r, d3')
      \<longrightarrow> (\<exists>q3. quotes d3' qid3 = Some q3 \<and> total_invariant fp q3
                 \<and> response_new_total r = total_estimate q3))
   \<and> (total_invariant fp q
      \<longrightarrow> (\<exists>lines.
             list_all2 (\<lambda>i line. \<exists>p. unit_price i = Some p
                                      \<and> times_int fp p (quantity i) = Inr line)
               (filter priced (items q)) lines
             \<and> (total_estimate q = None) = (\<forall>i\<in>set (items q). unit_price i = None)
             \<and> (total_estimate q \<noteq> None
                  \<longrightarrow> total_estimate q = Some (foldl (fadd fp) (Finite 0) lines))))"
proof (intro conjI impI)
  assume "create_quote fp req u1 d1 now1 nid = (Inr (qid1, q1), d1')"
  then show "quotes d1' qid1 = Some q1" "total_invariant fp q1"
    using create_quote_Inr by blast+
next
  assume a: "update_quote fp qid2 upd u2 d2 now2 = (Inr q2, d2') \<and> upd_items upd = Some (i # rest)
        \<and> (role u2 \<notin> set [''admin'', ''manager''] \<or> upd_total_estimate upd = None)"
  then obtain q0 recalculated where
    "recalculated_total fp upd = Inr recalculated"
    "q2 = update_doc upd u2 now2 recalculated q0" "quotes d2' qid2 = Some q2"
    using update_quote_Inr by blast
  then show "quotes d2' qid2 = Some q2" "total_invariant fp q2"
    using a update_doc_items by blast+
next
  assume "apply_bulk_discount fp qid3 dreq u3 d3 now3 = (Inr r, d3')"
  from apply_bulk_discount_Inr [OF this]
  show "\<exists>q3. quotes d3' qid3 = Some q3 \<and> total_invariant fp q3
                 \<and> response_new_total r = total_estimate q3"
    by (auto simp: total_invariant_def calculate_quote_total_eq spec_total_of)
next
  assume inv: "total_invariant fp q"
  then obtain lines where l: "line_totals fp (items q) = Inr lines"
    and t: "total_estimate q = (if lines = [] then None else Some (foldl (fadd fp) (Finite 0) lines))"
    by (auto simp: total_invariant_def spec_total_estimate_def split: sum.splits)
  show "\<exists>lines.
             list_all2 (\<lambda>i line. \<exists>p. unit_price i = Some p
                                      \<and> times_int fp p (quantity i) = Inr line)
               (filter priced (items q)) lines
             \<and> (total_estimate q = None) = (\<forall>i\<in>set (items q). unit_price i = None)
             \<and> (total_estimate q \<noteq> None
                  \<longrightarrow> total_estimate q = Some (foldl (fadd fp) (Finite 0) lines))"
    using line_totals_Inr [OF l] line_totals_Nil_iff [OF l] t
    by (intro exI [of _ lines]) simp
qed

theorem total_estimate_invariant_witness:
  "total_invariant example_arith (alice_quote ''draft'')
   \<and> total_invariant example_arith ((alice_quote ''sent'')\<lparr>updated_at := 10, items := [widget]\<rparr>)
   \<and> map_option (total_invariant example_arith) (quotes once_discounted quote1_id) = Some True
   \<and> map_option total_estimate (quotes once_discounted quote1_id) = Some (Some (Finite 1800))
   \<and> total_estimate (alice_quote ''draft'') = Some (Finite 2000)"
  using total_estimate_invariant
     [where fp = example_arith
        and req = alice_request and ?u1.0 = alice and ?d1.0 = empty_db and ?now1.0 = 0
        and nid = quote1_id and ?qid1.0 = quote1_id and ?q1.0 = "alice_quote ''draft''"
        and ?d1' = "empty_db\<lparr>quotes := [quote1_id \<mapsto> alice_quote ''draft'']\<rparr>"
        and ?qid2.0 = quote1_id and upd = replace_items and ?u2.0 = alice and ?d2.0 = legacy_db
        and ?now2.0 = 10 and ?q2.0 = "(alice_quote ''sent'')\<lparr>updated_at := 10, items := [widget]\<rparr>"
        and ?d2' = "legacy_db\<lparr>quotes := [quote1_id \<mapsto> (alice_quote ''sent'')\<lparr>updated_at := 10, items := [widget]\<rparr>]\<rparr>"
        and i = "QuoteItemRequest_of widget" and rest = "[]"
        and ?qid3.0 = quote1_id and dreq = "percent (Finite 10)" and ?u3.0 = root
        and ?d3.0 = legacy_db and ?now3.0 = 10
        and r = "\<lparr>response_total_discount = Finite 200, response_new_total = Some (Finite 1800),
                  items_affected = 2\<rparr>"
        and ?d3' = once_discounted
        and q = "alice_quote ''draft''"]
    create_example update_example first_discount_example once_discounted_quote
  apply (simp add: replace_items_def override_update_def alice_def)
  apply (auto simp: alice_quote_def)
  done

text \<open>
  C3 as stated fails: an administrator replaces the items of the quote of Alice by one
  widget (2 at 1000) and sends a total of 5 in the same update. The stored total is 5, and
  the sum over the items is 2000.
\<close>

theorem total_estimate_counterexample:
  "update_quote example_arith quote1_id override_update root legacy_db 10
     = (Inr ((alice_quote ''sent'')
               \<lparr>updated_at := 10, items := [widget], total_estimate := Some (Finite 5)\<rparr>),
        legacy_db\<lparr>quotes := [quote1_id \<mapsto> (alice_quote ''sent'')
               \<lparr>updated_at := 10, items := [widget], total_estimate := Some (Finite 5)\<rparr>]\<rparr>)
   \<and> upd_items override_update = Some [QuoteItemRequest_of widget]
   \<and> spec_total_estimate example_arith [widget] = Inr (Some (Finite 2000))"
  using override_example
  by (simp add: override_update_def spec_total_estimate_def widget_def arith_defs)

section \<open>Discounts: theorems\<close>

lemma discount_item_None_iff: "(discount_item fp dtype v item = None) = (\<not> affected item)"
  by (auto simp: discount_item_def affected_def Let_def split: option.splits)

lemma discount_totals_Inr:
  "discount_totals fp dtype v its = Inr lines \<Longrightarrow>
   list_all2 (\<lambda>item line. \<exists>item' a. discount_item fp dtype v item = Some (item', a)
                                    \<and> times_int fp a (quantity item) = Inr line)
     (filter affected its) lines"
proof (induction its arbitrary: lines)
  case Nil
  then show ?case by simp
next
  case (Cons item rest)
  show ?case
  proof (cases "discount_item fp dtype v item")
    case None
    then have "\<not> affected item"
      using discount_item_None_iff [of fp dtype v item] by simp
    with None Cons show ?thesis
      by simp
  next
    case (Some res)
    then have "affected item"
      using discount_item_None_iff [of fp dtype v item] by simp
    with Some Cons show ?thesis
      by (cases res) (auto split: sum.splits)
  qed
qed

lemma apply_bulk_discount_items:
  assumes "apply_bulk_discount fp qid req u d now = (Inr r, d')"
  shows "\<exists>q q' lines. get_quote_by_id qid d = Some q \<and> quotes d' qid = Some q'
           \<and> items q' = map (discounted fp (discount_type req) (discount_value req)) (items q)
           \<and> list_all (\<lambda>i. valid_QuoteItemRequest (QuoteItemRequest_of i)) (items q')
           \<and> discount_totals fp (discount_type req) (discount_value req) (items q) = Inr lines
           \<and> response_total_discount r = foldl (fadd fp) (Finite 0) lines"
proof -
  from apply_bulk_discount_Inr [OF assms] obtain q m t n nt where
    *: "get_quote_by_id qid d = Some q" "discount_items fp req (items q) = Inr (m, t, n)"
       "list_all (\<lambda>i. valid_QuoteItemRequest (QuoteItemRequest_of i)) m"
       "quotes d' qid = Some (q\<lparr>items := m,
                         total_estimate := nt,
                         quote_discount_applied := Some t,
                         discount_reason := reason req,
                         updated_at := now\<rparr>)"
       "r = \<lparr>response_total_discount = t, response_new_total = nt, items_affected = n\<rparr>"
    by blast
  from discount_items_Inr [OF *(2)] * show ?thesis
    by auto
qed

lemma discounted_valid:
  "valid_QuoteItemRequest (QuoteItemRequest_of item)
     \<Longrightarrow> valid_QuoteItemRequest (QuoteItemRequest_of (discounted fp dtype v item))"
  by (auto simp: discounted_def discount_item_def valid_QuoteItemRequest_def
      QuoteItemRequest_of_def Let_def max0_nonnegative split: option.splits)

text \<open>
  With the default selection of all items a discount on a stored quote with valid items
  goes through, unless a product with a quantity or the write raises.
\<close>

lemma apply_bulk_discount_succeeds:
  assumes "role u \<in> set [''admin'', ''manager'']" and "valid_BulkDiscountRequest req"
    and "apply_to_items req = None \<or> apply_to_items req = Some []"
    and "get_quote_by_id qid d = Some q" and "items q \<noteq> []"
    and "list_all (\<lambda>i. valid_QuoteItemRequest (QuoteItemRequest_of i)) (items q)"
    and "discount_totals fp (discount_type req) (discount_value req) (items q) = Inr lines"
    and "calculate_quote_total fp
           (map QuoteItemRequest_of
              (map (discounted fp (discount_type req) (discount_value req)) (items q)))
         = Inr new_total"
    and "qid \<notin> write_raises d" and "ObjectId (user_id u) = Inr (user_id u)"
  shows "\<exists>r d'. apply_bulk_discount fp qid req u d now = (Inr r, d')"
proof -
  from assms(4) have qs: "ObjectId qid = Inr qid" "quotes d qid = Some q"
    by (auto dest: get_quote_by_id_Some)
  have "list_all (\<lambda>i. valid_QuoteItemRequest (QuoteItemRequest_of i))
          (map (discounted fp (discount_type req) (discount_value req)) (items q))"
    using assms(6) by (auto simp: list_all_iff discounted_valid)
  then show ?thesis
    using assms qs
    by (simp add: apply_bulk_discount_def require_role_def discount_items_all parse_items_def
        quotes_update_one_def reraise_def Let_def)
qed

text \<open>
  With a non-empty \<^verbatim>\<open>apply_to_items\<close> a discount on a stored quote with items ends in the
  500 of the \<^verbatim>\<open>TypeError\<close>.
\<close>

lemma apply_bulk_discount_explicit_indices:
  assumes "role u \<in> set [''admin'', ''manager'']" and "valid_BulkDiscountRequest req"
    and "apply_to_items req = Some (i # rest)"
    and "get_quote_by_id qid d = Some q" and "items q \<noteq> []"
  shows "apply_bulk_discount fp qid req u d now
           = (Inl (HTTPException 500 ''Failed to apply bulk discount''), d)"
  using assms
  by (simp add: apply_bulk_discount_def require_role_def discount_items_def reraise_def)

lemma original_price_discounted:
  "original_price (discounted fp dtype v item)
     = (if affected item then unit_price item else original_price item)"
  by (auto simp: discounted_def discount_item_def affected_def Let_def split: option.splits)

text \<open>
  C4 (as amended). On an item whose current price \<open>p\<close> is not zero, in the float operations
  of the code: a percentage discount has the amount \<^verbatim>\<open>p * (v / 100)\<close> and the new price
  \<^verbatim>\<open>max(0, p - amount)\<close>; a fixed discount has the new price \<^verbatim>\<open>max(0, p - v)\<close> and the amount
  \<^verbatim>\<open>p - new_price\<close>. The new price is never negative. A successful \<^verbatim>\<open>apply_bulk_discount\<close>
  rewrites each item from its current stored price, so that a later discount applies to the
  already discounted price; no item of the result has a negative price; and
  \<^verbatim>\<open>total_discount\<close> is the products \<^verbatim>\<open>discount_amount * quantity\<close> of the affected items,
  added in the order of the items to a total that starts at \<^verbatim>\<open>0.0\<close>. This holds whatever the
  float operations return.
\<close>

theorem discount_arithmetic:
  assumes "unit_price item = Some p" and "\<not> falsy p"
  shows "discount_item fp ''percentage'' v item
           = Some (item\<lparr>unit_price := Some (max0 (fsub fp p (fmul fp p (fdiv fp v (Finite 100))))),
                         original_price := Some p,
                         discount_applied := Some (fmul fp p (fdiv fp v (Finite 100)))\<rparr>,
                   fmul fp p (fdiv fp v (Finite 100)))
       \<and> discount_item fp ''fixed_amount'' v item
           = Some (item\<lparr>unit_price := Some (max0 (fsub fp p v)),
                         original_price := Some p,
                         discount_applied := Some (fsub fp p (max0 (fsub fp p v)))\<rparr>,
                   fsub fp p (max0 (fsub fp p v)))
       \<and> dge0 (max0 (fsub fp p (fmul fp p (fdiv fp v (Finite 100)))))
       \<and> dge0 (max0 (fsub fp p v))
       \<and> (apply_bulk_discount fp qid req u d now = (Inr r, d') \<longrightarrow>
            (\<exists>q q' lines. get_quote_by_id qid d = Some q \<and> quotes d' qid = Some q'
               \<and> items q' = map (discounted fp (discount_type req) (discount_value req)) (items q)
               \<and> (\<forall>i\<in>set (items q'). \<forall>x. unit_price i = Some x \<longrightarrow> dge0 x)
               \<and> list_all2
                    (\<lambda>item line. \<exists>item' a.
                        discount_item fp (discount_type req) (discount_value req) item
                          = Some (item', a)
                        \<and> times_int fp a (quantity item) = Inr line)
                    (filter affected (items q)) lines
               \<and> response_total_discount r = foldl (fadd fp) (Finite 0) lines))"
proof (intro conjI impI)
  show "discount_item fp ''percentage'' v item
           = Some (item\<lparr>unit_price := Some (max0 (fsub fp p (fmul fp p (fdiv fp v (Finite 100))))),
                         original_price := Some p,
                         discount_applied := Some (fmul fp p (fdiv fp v (Finite 100)))\<rparr>,
                   fmul fp p (fdiv fp v (Finite 100)))"
    using assms by (simp add: discount_item_def)
  show "discount_item fp ''fixed_amount'' v item
           = Some (item\<lparr>unit_price := Some (max0 (fsub fp p v)),
                         original_price := Some p,
                         discount_applied := Some (fsub fp p (max0 (fsub fp p v)))\<rparr>,
                   fsub fp p (max0 (fsub fp p v)))"
    using assms by (simp add: discount_item_def)
  show "dge0 (max0 (fsub fp p (fmul fp p (fdiv fp v (Finite 100)))))"
    by (rule max0_nonnegative)
  show "dge0 (max0 (fsub fp p v))"
    by (rule max0_nonnegative)
next
  assume "apply_bulk_discount fp qid req u d now = (Inr r, d')"
  from apply_bulk_discount_items [OF this] obtain q q' lines where
    *: "get_quote_by_id qid d = Some q" "quotes d' qid = Some q'"
       "items q' = map (discounted fp (discount_type req) (discount_value req)) (items q)"
       "list_all (\<lambda>i. valid_QuoteItemRequest (QuoteItemRequest_of i)) (items q')"
       "discount_totals fp (discount_type req) (discount_value req) (items q) = Inr lines"
       "response_total_discount r = foldl (fadd fp) (Finite 0) lines"
    by blast
  have "\<forall>i\<in>set (items q'). \<forall>x. unit_price i = Some x \<longrightarrow> dge0 x"
    using *(4) by (auto simp: list_all_iff valid_QuoteItemRequest_def QuoteItemRequest_of_def)
  with * discount_totals_Inr [OF *(5)]
  show "\<exists>q q' lines. get_quote_by_id qid d = Some q \<and> quotes d' qid = Some q'
               \<and> items q' = map (discounted fp (discount_type req) (discount_value req)) (items q)
               \<and> (\<forall>i\<in>set (items q'). \<forall>x. unit_price i = Some x \<longrightarrow> dge0 x)
               \<and> list_all2
                    (\<lambda>item line. \<exists>item' a.
                        discount_item fp (discount_type req) (discount_value req) item
                          = Some (item', a)
                        \<and> times_int fp a (quantity item) = Inr line)
                    (filter affected (items q)) lines
               \<and> response_total_discount r = foldl (fadd fp) (Finite 0) lines"
    by (intro exI [of _ q] exI [of _ q'] exI [of _ lines]) simp
qed

theorem discount_arithmetic_witness:
  "discount_item example_arith ''percentage'' (Finite 10) widget
     = Some (widget\<lparr>unit_price := Some (Finite 900), original_price := Some (Finite 1000),
                    discount_applied := Some (Finite 100)\<rparr>, Finite 100)
   \<and> discount_item example_arith ''fixed_amount'' (Finite 1500) widget
     = Some (widget\<lparr>unit_price := Some (Finite 0), original_price := Some (Finite 1000),
                    discount_applied := Some (Finite 1000)\<rparr>, Finite 1000)
   \<and> fst (apply_bulk_discount example_arith quote1_id (percent (Finite 10)) root legacy_db 10)
     = Inr \<lparr>response_total_discount = Finite 200, response_new_total = Some (Finite 1800),
            items_affected = 2\<rparr>
   \<and> map_option (map unit_price \<circ> items) (quotes once_discounted quote1_id)
     = Some [Some (Finite 900), None]
   \<and> map_option (map unit_price \<circ> items) (quotes twice_discounted quote1_id)
     = Some [Some (Finite 810), None]"
  using discount_arithmetic
     [where fp = example_arith and item = widget and p = "Finite 1000" and v = "Finite 10"
        and qid = quote1_id and req = "percent (Finite 10)"
        and u = root and d = legacy_db and now = 10 and d' = once_discounted
        and r = "\<lparr>response_total_discount = Finite 200, response_new_total = Some (Finite 1800),
                  items_affected = 2\<rparr>"]
    discount_arithmetic [where fp = example_arith and item = widget and p = "Finite 1000"
        and v = "Finite 1500"]
  apply (simp add: first_discount_example once_discounted_quote second_discount_example)
  apply (simp add: widget_def gasket_def arith_defs)
  done

text \<open>
  C4 as stated fails for a percentage above 100: a discount of 200 percent on the widget at
  1000 gives the price 0, not \<open>1000 - 1000 * 200 / 100\<close>, and a discount amount of 2000. All
  operations of this example are exact in doubles.
\<close>

theorem discount_arithmetic_counterexample:
  "unit_price widget = Some (Finite 1000)
   \<and> discount_item example_arith ''percentage'' (Finite 200) widget
     = Some (widget\<lparr>unit_price := Some (Finite 0), original_price := Some (Finite 1000),
                    discount_applied := Some (Finite 2000)\<rparr>, Finite 2000)
   \<and> (1000 :: rat) - 1000 * 200 / 100 = - 1000
   \<and> map_option (map unit_price \<circ> items)
       (quotes (snd (apply_bulk_discount example_arith quote1_id (percent (Finite 200)) root
                       legacy_db 10)) quote1_id)
     = Some [Some (Finite 0), None]"
  using double_discount_example
  by (simp add: widget_def gasket_def discount_item_def arith_defs)

text \<open>
  C5 (as amended). A successful \<^verbatim>\<open>apply_bulk_discount\<close> sets the \<^verbatim>\<open>original_price\<close> of every
  item it affects to the price the item had when the call began, whatever was stored
  there, and leaves the \<^verbatim>\<open>original_price\<close> of the items it skips as it was.
\<close>

theorem original_price_overwritten:
  assumes "apply_bulk_discount fp qid req u d now = (Inr r, d')"
  shows "\<exists>q q'. get_quote_by_id qid d = Some q \<and> quotes d' qid = Some q'
           \<and> map original_price (items q')
               = map (\<lambda>item. if affected item then unit_price item else original_price item)
                   (items q)"
proof -
  from apply_bulk_discount_items [OF assms] obtain q q' where
    "get_quote_by_id qid d = Some q" "quotes d' qid = Some q'"
    "items q' = map (discounted fp (discount_type req) (discount_value req)) (items q)"
    by blast
  then show ?thesis
    by (auto simp: original_price_discounted)
qed

theorem original_price_overwritten_witness:
  "map_option (map original_price \<circ> items) (quotes legacy_db quote1_id) = Some [None, None]
   \<and> map_option (map unit_price \<circ> items) (quotes legacy_db quote1_id)
       = Some [Some (Finite 1000), None]
   \<and> map_option (map original_price \<circ> items) (quotes once_discounted quote1_id)
       = Some [Some (Finite 1000), None]"
  using original_price_overwritten [OF first_discount_example]
  by (simp add: first_discount_example once_discounted_quote
      legacy_db_def empty_db_def alice_quote_def widget_def gasket_def)

text \<open>
  C5 as stated fails: after a first discount of 10 percent the widget has
  \<^verbatim>\<open>original_price\<close> 1000; a second discount of 10 percent replaces it by 900.
\<close>

theorem original_price_counterexample:
  "map_option (map original_price \<circ> items) (quotes once_discounted quote1_id)
     = Some [Some (Finite 1000), None]
   \<and> fst (apply_bulk_discount example_arith quote1_id (percent (Finite 10)) root
            once_discounted 20)
     = Inr \<lparr>response_total_discount = Finite 180, response_new_total = Some (Finite 1620),
            items_affected = 2\<rparr>
   \<and> map_option (map original_price \<circ> items) (quotes twice_discounted quote1_id)
     = Some [Some (Finite 900), None]"
  by (simp add: once_discounted_quote second_discount_example widget_def gasket_def)

section \<open>Status changes: theorems\<close>

lemma reraise_simps:
  "reraise detail (Inl (HTTPException code msg), d) = (Inl (HTTPException code msg), d)"
  "reraise detail (Inl RequestValidationError, d) = (Inl (HTTPException 500 detail), d)"
  "reraise detail (Inl (PyException x), d) = (Inl (HTTPException 500 detail), d)"
  "reraise detail (Inr r, d) = (Inr r, d)"
  by (simp_all add: reraise_def)

lemma change_quote_status_unauthorized:
  assumes "get_quote_by_id qid d = Some q" and "valid_StatusChangeRequest req"
    and "\<not> authorized q u"
  shows "change_quote_status qid req u d now
           = (Inl (HTTPException 403 ''Insufficient permissions to change quote status''), d)"
  using assms by (simp add: change_quote_status_def authorized_def reraise_simps Let_def)

lemma change_quote_status_noop:
  assumes "get_quote_by_id qid d = Some q" and "valid_StatusChangeRequest req"
    and "authorized q u" and "new_status req = status q"
  shows "change_quote_status qid req u d now
           = (Inl (HTTPException 400 ''Quote is already in the specified status''), d)"
  using assms by (auto simp: change_quote_status_def authorized_def reraise_simps Let_def)

lemma ObjectId_Inl: "ObjectId s = Inl e \<Longrightarrow> e = PyException ''InvalidId''"
  by (auto simp: ObjectId_def split: if_splits)

lemma quotes_update_one_Inl: "quotes_update_one qid f d = Inl e \<Longrightarrow> \<exists>x. e = PyException x"
  by (auto simp: quotes_update_one_def split: sum.splits if_splits option.splits dest: ObjectId_Inl)

lemma change_quote_status_changes:
  assumes "get_quote_by_id qid d = Some q" and "valid_StatusChangeRequest req"
    and "authorized q u" and "new_status req \<noteq> status q"
  shows "(\<exists>r d'. change_quote_status qid req u d now = (Inr r, d'))
       \<or> (\<exists>d'. change_quote_status qid req u d now
                  = (Inl (HTTPException 500 ''Failed to change quote status''), d'))"
  using assms
  by (auto simp: change_quote_status_def authorized_def reraise_simps Let_def
      split: sum.splits dest!: ObjectId_Inl quotes_update_one_Inl)

lemma change_quote_status_success:
  assumes "get_quote_by_id qid d = Some q" and "valid_StatusChangeRequest req"
    and "authorized q u" and "new_status req \<noteq> status q"
    and "qid \<notin> write_raises d" and "ObjectId (user_id u) = Inr (user_id u)"
  shows "fst (change_quote_status qid req u d now)
           = Inr \<lparr>response_old_status = status q, response_new_status = new_status req,
                  notification_sent = (notify_customer req \<and> customer_email (customer_info q) \<noteq> [])\<rparr>
       \<and> map_option status (quotes (snd (change_quote_status qid req u d now)) qid)
           = Some (new_status req)
       \<and> (\<not> history_raises d \<longrightarrow>
            quote_history (snd (change_quote_status qid req u d now))
              = quote_history d @
                [\<lparr>history_quote_id = qid, history_action = ''status_changed'',
                  field_changed = ''status'', old_value = Text (status q),
                  new_value = Text (new_status req), changed_by = user_id u, timestamp = now,
                  history_notes = Text (or_else (status_admin_notes req)
                     (''Status changed from '' @ status q @ '' to '' @ new_status req))\<rparr>])"
proof -
  from assms(1) have qs: "ObjectId qid = Inr qid" "quotes d qid = Some q"
    by (auto dest: get_quote_by_id_Some)
  show ?thesis
    using assms qs
    by (auto simp: change_quote_status_def authorized_def reraise_simps Let_def
        quotes_update_one_def record_history_def)
qed

lemma legacy_quote1: "get_quote_by_id quote1_id legacy_db = Some (alice_quote ''sent'')"
  by (simp add: get_quote_by_id_def find_one_def ObjectId_examples legacy_db_def empty_db_def)

lemma example_fields:
  "status (alice_quote st) = st" "created_by (alice_quote st) = alice_id"
  "write_raises legacy_db = {}" "history_raises legacy_db = False"
  "write_raises shop_db = {}" "history_raises shop_db = False"
  by (simp_all add: alice_quote_def legacy_db_def shop_db_def empty_db_def)

text \<open>
  C2 (as amended). On a stored quote and a request that passes validation,
  \<^verbatim>\<open>change_quote_status\<close> fails with 403 exactly when the requestor is neither admin or
  manager nor the creator, and with 400 exactly when the requestor is authorized and the
  new status is the current one. For an authorized requestor every other pair of a
  current status and a new status among draft, pending, sent, approved, rejected and
  expired succeeds and stores the new status, provided the write does not raise and the
  requestor's id is an ObjectId. A new status outside these six, archived in particular,
  is rejected by the validation of the request.
\<close>

theorem change_quote_status_outcome:
  "(get_quote_by_id qid d = Some q \<and> valid_StatusChangeRequest req \<longrightarrow>
      ((outcome_of (change_quote_status qid req u d now) = Forbidden) = (\<not> authorized q u))
    \<and> ((outcome_of (change_quote_status qid req u d now) = NoOpTransition)
         = (authorized q u \<and> new_status req = status q))
    \<and> (authorized q u \<and> new_status req \<noteq> status q \<and> qid \<notin> write_raises d
         \<and> ObjectId (user_id u) = Inr (user_id u) \<longrightarrow>
           outcome_of (change_quote_status qid req u d now) = Transitioned
         \<and> fst (change_quote_status qid req u d now)
             = Inr \<lparr>response_old_status = status q, response_new_status = new_status req,
                    notification_sent =
                      (notify_customer req \<and> customer_email (customer_info q) \<noteq> [])\<rparr>
         \<and> map_option status (quotes (snd (change_quote_status qid req u d now)) qid)
             = Some (new_status req)))
   \<and> (new_status req \<notin> set [''draft'', ''pending'', ''sent'', ''approved'', ''rejected'', ''expired'']
        \<longrightarrow> change_quote_status qid req u d now = (Inl RequestValidationError, d))
   \<and> (valid_StatusChangeRequest req
        \<longrightarrow> new_status req \<in> set quote_states \<and> new_status req \<noteq> ''archived'')"
proof (intro conjI impI)
  assume a: "get_quote_by_id qid d = Some q \<and> valid_StatusChangeRequest req"
  then have q: "get_quote_by_id qid d = Some q" and v: "valid_StatusChangeRequest req"
    by simp_all
  consider (unauth) "\<not> authorized q u"
    | (noop) "authorized q u" "new_status req = status q"
    | (change) "authorized q u" "new_status req \<noteq> status q"
    by blast
  then have "outcome_of (change_quote_status qid req u d now)
               = (if \<not> authorized q u then Forbidden
                  else if new_status req = status q then NoOpTransition
                  else outcome_of (change_quote_status qid req u d now))
             \<and> (authorized q u \<and> new_status req \<noteq> status q \<longrightarrow>
                  outcome_of (change_quote_status qid req u d now) \<in> {Transitioned, OtherFailure})"
  proof cases
    case unauth
    then show ?thesis
      by (simp add: change_quote_status_unauthorized [OF q v] outcome_of_def)
  next
    case noop
    then show ?thesis
      by (simp add: change_quote_status_noop [OF q v] outcome_of_def)
  next
    case change
    then show ?thesis
      using change_quote_status_changes [OF q v change, of now]
      by (auto simp: outcome_of_def)
  qed
  then show "(outcome_of (change_quote_status qid req u d now) = Forbidden) = (\<not> authorized q u)"
    and "(outcome_of (change_quote_status qid req u d now) = NoOpTransition)
           = (authorized q u \<and> new_status req = status q)"
    by (auto split: if_splits)
next
  assume a: "get_quote_by_id qid d = Some q \<and> valid_StatusChangeRequest req"
    and b: "authorized q u \<and> new_status req \<noteq> status q \<and> qid \<notin> write_raises d
         \<and> ObjectId (user_id u) = Inr (user_id u)"
  have s: "fst (change_quote_status qid req u d now)
           = Inr \<lparr>response_old_status = status q, response_new_status = new_status req,
                  notification_sent = (notify_customer req \<and> customer_email (customer_info q) \<noteq> [])\<rparr>
       \<and> map_option status (quotes (snd (change_quote_status qid req u d now)) qid)
           = Some (new_status req)"
    using change_quote_status_success [of qid d q req u now] a b by simp
  then show "outcome_of (change_quote_status qid req u d now) = Transitioned"
    by (simp add: outcome_of_def)
  from s show "fst (change_quote_status qid req u d now)
             = Inr \<lparr>response_old_status = status q, response_new_status = new_status req,
                    notification_sent =
                      (notify_customer req \<and> customer_email (customer_info q) \<noteq> [])\<rparr>"
    and "map_option status (quotes (snd (change_quote_status qid req u d now)) qid)
             = Some (new_status req)"
    by simp_all
next
  assume "new_status req \<notin> set [''draft'', ''pending'', ''sent'', ''approved'', ''rejected'', ''expired'']"
  then show "change_quote_status qid req u d now = (Inl RequestValidationError, d)"
    by (simp add: change_quote_status_def valid_StatusChangeRequest_def)
next
  assume "valid_StatusChangeRequest req"
  then show "new_status req \<in> set quote_states" "new_status req \<noteq> ''archived''"
    by (auto simp: valid_StatusChangeRequest_def quote_states_def)
qed

theorem change_quote_status_outcome_witness:
  "outcome_of (change_quote_status quote1_id (status_request ''approved'') root legacy_db 10)
     = Transitioned
   \<and> map_option status
       (quotes (snd (change_quote_status quote1_id (status_request ''approved'') root legacy_db 10))
          quote1_id) = Some ''approved''
   \<and> outcome_of (change_quote_status quote1_id (status_request ''approved'') bob legacy_db 10)
     = Forbidden
   \<and> outcome_of (change_quote_status quote1_id (status_request ''sent'') alice legacy_db 10)
     = NoOpTransition
   \<and> change_quote_status quote1_id (status_request ''archived'') root legacy_db 10
     = (Inl RequestValidationError, legacy_db)"
  using change_quote_status_outcome
          [of quote1_id legacy_db "alice_quote ''sent''" "status_request ''approved''" root 10]
        change_quote_status_outcome
          [of quote1_id legacy_db "alice_quote ''sent''" "status_request ''approved''" bob 10]
        change_quote_status_outcome
          [of quote1_id legacy_db "alice_quote ''sent''" "status_request ''sent''" alice 10]
        change_quote_status_outcome
          [of quote1_id legacy_db "alice_quote ''sent''" "status_request ''archived''" root 10]
  by (simp add: legacy_quote1 example_fields valid_StatusChangeRequest_def opt_max_length_def
      status_request_def authorized_def root_def bob_def alice_def ObjectId_examples
      example_ids_distinct)

text \<open>
  C2 as stated fails twice on the quote of Alice, which is sent. An administrator asking
  for archived, another of the seven states, is refused by the request validation; and
  Bob, who is neither staff nor the creator, asking for sent, the current status, gets 403
  and not the no-op failure.
\<close>

theorem change_quote_status_counterexample:
  "get_quote_by_id quote1_id legacy_db = Some (alice_quote ''sent'')
   \<and> authorized (alice_quote ''sent'') root
   \<and> ''sent'' \<in> set quote_states \<and> ''archived'' \<in> set quote_states
   \<and> change_quote_status quote1_id (status_request ''archived'') root legacy_db 10
     = (Inl RequestValidationError, legacy_db)
   \<and> \<not> authorized (alice_quote ''sent'') bob
   \<and> change_quote_status quote1_id (status_request ''sent'') bob legacy_db 10
     = (Inl (HTTPException 403 ''Insufficient permissions to change quote status''), legacy_db)"
  by (simp add: legacy_quote1 change_quote_status_def valid_StatusChangeRequest_def
      opt_max_length_def status_request_def authorized_def root_def bob_def example_fields
      example_ids_distinct quote_states_def reraise_simps)

section \<open>Bulk actions: theorems\<close>

lemma bulk_loop_append:
  "bulk_loop r u now (ids1 @ ids2) acc = bulk_loop r u now ids2 (bulk_loop r u now ids1 acc)"
  by (induction ids1 arbitrary: acc) simp_all

lemma bulk_step_missing:
  "get_quote_by_id qid d = None \<Longrightarrow>
   bulk_step r u now qid (P, F, d)
     = (P, F @ [\<lparr>failed_quote_id = qid, failed_reason = ''Quote not found''\<rparr>], d)"
  by (simp add: bulk_step_def bulk_process_quote_def)

lemma bulk_step_delete_not_draft:
  "action r = ''delete'' \<Longrightarrow> get_quote_by_id qid d = Some q \<Longrightarrow> status q \<noteq> ''draft'' \<Longrightarrow>
   bulk_step r u now qid (P, F, d)
     = (P, F @ [\<lparr>failed_quote_id = qid, failed_reason = ''Can only delete draft quotes''\<rparr>], d)"
  by (simp add: bulk_step_def bulk_process_quote_def)

lemma bulk_step_error:
  "fst (bulk_process_quote r u now qid d) = Inl e \<Longrightarrow>
   bulk_step r u now qid (P, F, d)
     = (P, F @ [\<lparr>failed_quote_id = qid, failed_reason = ''Processing error''\<rparr>],
        snd (bulk_process_quote r u now qid d))"
  by (cases "bulk_process_quote r u now qid d") (simp add: bulk_step_def)

lemma bulk_process_quote_write_raises:
  assumes "get_quote_by_id qid d = Some q" and "qid \<in> write_raises d"
    and "action r \<in> set [''approve'', ''reject'', ''archive'']"
  shows "bulk_process_quote r u now qid d = (Inl (PyException ''PyMongoError''), d)"
proof -
  from assms(1) have "ObjectId qid = Inr qid"
    by (auto dest: get_quote_by_id_Some)
  then show ?thesis
    using assms by (auto simp: bulk_process_quote_def quotes_update_one_def Let_def)
qed

lemma bulk_process_quote_entry:
  assumes "action r \<in> set [''approve'', ''reject'', ''archive'', ''delete'']"
  shows "(\<exists>e. fst (bulk_process_quote r u now qid d) = Inl e)
       \<or> (\<exists>p. fst (bulk_process_quote r u now qid d) = Inr (Processed p) \<and> processed_quote_id p = qid)
       \<or> (\<exists>f. fst (bulk_process_quote r u now qid d) = Inr (Failure f) \<and> failed_quote_id f = qid)"
proof (cases "get_quote_by_id qid d")
  case None
  then show ?thesis by (simp add: bulk_process_quote_def)
next
  case (Some q)
  then show ?thesis
    using assms
    by (auto simp: bulk_process_quote_def Let_def split: sum.splits prod.splits)
qed

lemma bulk_step_entry:
  assumes "action r \<in> set [''approve'', ''reject'', ''archive'', ''delete'']"
  shows "\<exists>P' F' d'. bulk_step r u now qid (P, F, d) = (P @ P', F @ F', d')
           \<and> length P' + length F' = 1
           \<and> set (map processed_quote_id P') \<subseteq> {qid} \<and> set (map failed_quote_id F') \<subseteq> {qid}"
  using bulk_process_quote_entry [OF assms, of u now qid d]
  by (cases "bulk_process_quote r u now qid d")
     (auto simp: bulk_step_def split: sum.splits bulk_outcome.splits)


lemma subseq_singleton_Cons:
  "length xs \<le> 1 \<Longrightarrow> set xs \<subseteq> {x} \<Longrightarrow> subseq ys zs \<Longrightarrow> subseq (xs @ ys) (x # zs)"
  by (cases xs) auto

lemma bulk_loop_entries:
  assumes "action r \<in> set [''approve'', ''reject'', ''archive'', ''delete'']"
  shows "\<exists>P' F' d'. bulk_loop r u now ids (P, F, d) = (P @ P', F @ F', d')
           \<and> length P' + length F' = length ids
           \<and> subseq (map processed_quote_id P') ids \<and> subseq (map failed_quote_id F') ids"
proof (induction ids arbitrary: P F d)
  case Nil
  then show ?case by simp
next
  case (Cons qid rest)
  from bulk_step_entry [OF assms, of u now qid P F d] obtain P1 F1 d1 where
    step: "bulk_step r u now qid (P, F, d) = (P @ P1, F @ F1, d1)"
    and len: "length P1 + length F1 = 1"
    and ids: "set (map processed_quote_id P1) \<subseteq> {qid}" "set (map failed_quote_id F1) \<subseteq> {qid}"
    by blast
  from Cons.IH [of "P @ P1" "F @ F1" d1] obtain P2 F2 d2 where
    loop: "bulk_loop r u now rest (P @ P1, F @ F1, d1) = ((P @ P1) @ P2, (F @ F1) @ F2, d2)"
    and len2: "length P2 + length F2 = length rest"
    and sub: "subseq (map processed_quote_id P2) rest" "subseq (map failed_quote_id F2) rest"
    by blast
  have "subseq (map processed_quote_id P1 @ map processed_quote_id P2) (qid # rest)"
    using len ids(1) sub(1) by (intro subseq_singleton_Cons) simp_all
  moreover have "subseq (map failed_quote_id F1 @ map failed_quote_id F2) (qid # rest)"
    using len ids(2) sub(2) by (intro subseq_singleton_Cons) simp_all
  ultimately show ?case
    using step loop len len2
    by (intro exI [of _ "P1 @ P2"] exI [of _ "F1 @ F2"] exI [of _ d2]) simp
qed

lemmas bulk_eval = bulk_quote_action_def require_role_def valid_BulkQuoteAction_def bulk_def
  root_def opt_max_length_def bulk_step_def bulk_process_quote_def get_quote_by_id_def
  find_one_def ObjectId_examples quotes_update_one_def quotes_delete_one_def shop_db_def
  legacy_db_def empty_db_def alice_quote_def record_history_def Let_def example_ids_distinct
  or_else_def

text \<open>
  C6. The loop of \<^verbatim>\<open>bulk_quote_action\<close> handles the ids one after the other, each against the
  store the previous ones left. An id without a quote adds the failure "Quote not found"
  and changes nothing; a delete of a quote that is not a draft adds the failure "Can only
  delete draft quotes" and changes nothing; an exception while one quote is processed (a
  failing write, for one) adds the failure "Processing error"; in each case the loop goes
  on with the next id. For a staff requestor and a valid request the handler always returns
  both lists: every id has exactly one entry in one of them, each list in input order.
\<close>

theorem bulk_quote_action_isolates_failures:
  "bulk_loop r u now (ids1 @ qid # ids2) ([], [], d)
     = bulk_loop r u now ids2 (bulk_step r u now qid (bulk_loop r u now ids1 ([], [], d)))
   \<and> (get_quote_by_id qid d' = None \<longrightarrow>
        bulk_step r u now qid (P, F, d')
          = (P, F @ [\<lparr>failed_quote_id = qid, failed_reason = ''Quote not found''\<rparr>], d'))
   \<and> (action r = ''delete'' \<and> get_quote_by_id qid d' = Some q \<and> status q \<noteq> ''draft'' \<longrightarrow>
        bulk_step r u now qid (P, F, d')
          = (P, F @ [\<lparr>failed_quote_id = qid,
                       failed_reason = ''Can only delete draft quotes''\<rparr>], d'))
   \<and> (fst (bulk_process_quote r u now qid d') = Inl e \<longrightarrow>
        bulk_step r u now qid (P, F, d')
          = (P, F @ [\<lparr>failed_quote_id = qid, failed_reason = ''Processing error''\<rparr>],
             snd (bulk_process_quote r u now qid d')))
   \<and> (get_quote_by_id qid d' = Some q \<and> qid \<in> write_raises d'
        \<and> action r \<in> set [''approve'', ''reject'', ''archive''] \<longrightarrow>
        bulk_process_quote r u now qid d' = (Inl (PyException ''PyMongoError''), d'))
   \<and> (role u \<in> set [''admin'', ''manager''] \<and> valid_BulkQuoteAction r \<longrightarrow>
        (\<exists>resp d''. bulk_quote_action r u d now = (Inr resp, d'')
           \<and> (processed_quotes resp, failed_quotes resp, d'')
               = bulk_loop r u now (quote_ids r) ([], [], d)
           \<and> processed_count resp + failed_count resp = length (quote_ids r)
           \<and> subseq (map processed_quote_id (processed_quotes resp)) (quote_ids r)
           \<and> subseq (map failed_quote_id (failed_quotes resp)) (quote_ids r)))"
proof (intro conjI impI)
  show "bulk_loop r u now (ids1 @ qid # ids2) ([], [], d)
     = bulk_loop r u now ids2 (bulk_step r u now qid (bulk_loop r u now ids1 ([], [], d)))"
    by (simp add: bulk_loop_append)
next
  assume "get_quote_by_id qid d' = None"
  then show "bulk_step r u now qid (P, F, d')
          = (P, F @ [\<lparr>failed_quote_id = qid, failed_reason = ''Quote not found''\<rparr>], d')"
    by (rule bulk_step_missing)
next
  assume "action r = ''delete'' \<and> get_quote_by_id qid d' = Some q \<and> status q \<noteq> ''draft''"
  then show "bulk_step r u now qid (P, F, d')
          = (P, F @ [\<lparr>failed_quote_id = qid,
                       failed_reason = ''Can only delete draft quotes''\<rparr>], d')"
    by (simp add: bulk_step_delete_not_draft)
next
  assume "fst (bulk_process_quote r u now qid d') = Inl e"
  then show "bulk_step r u now qid (P, F, d')
          = (P, F @ [\<lparr>failed_quote_id = qid, failed_reason = ''Processing error''\<rparr>],
             snd (bulk_process_quote r u now qid d'))"
    by (rule bulk_step_error)
next
  assume "get_quote_by_id qid d' = Some q \<and> qid \<in> write_raises d'
        \<and> action r \<in> set [''approve'', ''reject'', ''archive'']"
  then show "bulk_process_quote r u now qid d' = (Inl (PyException ''PyMongoError''), d')"
    using bulk_process_quote_write_raises by blast
next
  assume a: "role u \<in> set [''admin'', ''manager''] \<and> valid_BulkQuoteAction r"
  then have act: "action r \<in> set [''approve'', ''reject'', ''archive'', ''delete'']"
    by (simp add: valid_BulkQuoteAction_def)
  from bulk_loop_entries [OF act, of u now "quote_ids r" "[]" "[]" d] obtain P' F' d1 where
    "bulk_loop r u now (quote_ids r) ([], [], d) = (P', F', d1)"
    "length P' + length F' = length (quote_ids r)"
    "subseq (map processed_quote_id P') (quote_ids r)"
    "subseq (map failed_quote_id F') (quote_ids r)"
    by auto
  then show "\<exists>resp d''. bulk_quote_action r u d now = (Inr resp, d'')
           \<and> (processed_quotes resp, failed_quotes resp, d'')
               = bulk_loop r u now (quote_ids r) ([], [], d)
           \<and> processed_count resp + failed_count resp = length (quote_ids r)
           \<and> subseq (map processed_quote_id (processed_quotes resp)) (quote_ids r)
           \<and> subseq (map failed_quote_id (failed_quotes resp)) (quote_ids r)"
    using a by (simp add: bulk_quote_action_def require_role_def)
qed

theorem bulk_quote_action_isolates_failures_witness:
  "fst (bulk_quote_action (bulk ''approve'' [quote1_id, quote2_id, quote3_id]) root shop_db 10)
     = Inr \<lparr>processed_count = 2, failed_count = 1,
            processed_quotes =
              [\<lparr>processed_quote_id = quote1_id, processed_action = ''approve'',
                processed_old_status = ''sent'', processed_new_status = ''approved''\<rparr>,
               \<lparr>processed_quote_id = quote3_id, processed_action = ''approve'',
                processed_old_status = ''draft'', processed_new_status = ''approved''\<rparr>],
            failed_quotes =
              [\<lparr>failed_quote_id = quote2_id, failed_reason = ''Quote not found''\<rparr>]\<rparr>
   \<and> bulk_step (bulk ''approve'' [quote1_id, quote2_id, quote3_id]) root 10 quote2_id
       ([], [], shop_db)
     = ([], [\<lparr>failed_quote_id = quote2_id, failed_reason = ''Quote not found''\<rparr>], shop_db)
   \<and> bulk_step (bulk ''delete'' [quote1_id, quote3_id]) root 10 quote1_id ([], [], shop_db)
     = ([], [\<lparr>failed_quote_id = quote1_id,
               failed_reason = ''Can only delete draft quotes''\<rparr>], shop_db)
   \<and> bulk_step (bulk ''approve'' [quote1_id, quote3_id]) root 10 quote1_id
       ([], [], shop_db\<lparr>write_raises := {quote1_id}\<rparr>)
     = ([], [\<lparr>failed_quote_id = quote1_id, failed_reason = ''Processing error''\<rparr>],
        shop_db\<lparr>write_raises := {quote1_id}\<rparr>)
   \<and> fst (bulk_quote_action (bulk ''approve'' [quote1_id, quote3_id]) root
          (shop_db\<lparr>write_raises := {quote1_id}\<rparr>) 10)
     = Inr \<lparr>processed_count = 1, failed_count = 1,
            processed_quotes =
              [\<lparr>processed_quote_id = quote3_id, processed_action = ''approve'',
                processed_old_status = ''draft'', processed_new_status = ''approved''\<rparr>],
            failed_quotes =
              [\<lparr>failed_quote_id = quote1_id, failed_reason = ''Processing error''\<rparr>]\<rparr>"
  using bulk_quote_action_isolates_failures
          [where r = "bulk ''approve'' [quote1_id, quote2_id, quote3_id]" and u = root
             and now = 10 and d = shop_db and d' = shop_db and qid = quote2_id
             and P = "[]" and F = "[]"]
        bulk_quote_action_isolates_failures
          [where r = "bulk ''delete'' [quote1_id, quote3_id]" and u = root
             and now = 10 and d = shop_db and d' = shop_db and qid = quote1_id
             and q = "alice_quote ''sent''" and P = "[]" and F = "[]"]
        bulk_quote_action_isolates_failures
          [where r = "bulk ''approve'' [quote1_id, quote3_id]" and u = root
             and now = 10 and d = "shop_db\<lparr>write_raises := {quote1_id}\<rparr>"
             and d' = "shop_db\<lparr>write_raises := {quote1_id}\<rparr>" and qid = quote1_id
             and q = "alice_quote ''sent''" and P = "[]" and F = "[]"
             and e = "PyException ''PyMongoError''"]
  by (simp add: bulk_eval)

section \<open>Deleting a quote: theorems\<close>

text \<open>
  C9 fails on the code. \<^verbatim>\<open>delete_quote\<close> removes the quote of Alice, which is sent, from the
  store; the bulk delete of the same quote is refused because it is not a draft.
\<close>

theorem delete_quote_removes_sent_quote:
  "map_option status (quotes legacy_db quote1_id) = Some ''sent''
   \<and> delete_quote quote1_id root legacy_db = (Inr (), legacy_db\<lparr>quotes := Map.empty\<rparr>)
   \<and> bulk_quote_action (bulk ''delete'' [quote1_id]) root legacy_db 10
     = (Inr \<lparr>processed_count = 0, failed_count = 1, processed_quotes = [],
             failed_quotes = [\<lparr>failed_quote_id = quote1_id,
                               failed_reason = ''Can only delete draft quotes''\<rparr>]\<rparr>,
        legacy_db)"
  by (simp add: delete_quote_def reraise_def bulk_eval)

end
